theory Spec2Isabelle
  imports Complex_Main
begin

section \<open>Scalars, buffers and the Eigen vector kernels\<close>

text \<open>
  The code of \<^verbatim>\<open>src/include/_lanczos/lanczos.h\<close> is a family of templates over a
  floating-point type \<^verbatim>\<open>F\<close>.  The scalar type is a type variable here, and its
  operations are the fields of a record that every function takes as its first
  argument, so a statement proved for all \<open>ar\<close> holds for whatever the instance of
  \<^verbatim>\<open>F\<close> computes, rounding, infinities and NaN included.
\<close>

record 'f scalar_ops =
  f_zero :: "'f"
  f_add :: "'f \<Rightarrow> 'f \<Rightarrow> 'f"
  f_sub :: "'f \<Rightarrow> 'f \<Rightarrow> 'f"
  f_mul :: "'f \<Rightarrow> 'f \<Rightarrow> 'f"
  f_div :: "'f \<Rightarrow> 'f \<Rightarrow> 'f"
  f_sqrt :: "'f \<Rightarrow> 'f"
  f_less :: "'f \<Rightarrow> 'f \<Rightarrow> bool"
  f_of_nat :: "nat \<Rightarrow> 'f"

text \<open>
  A raw pointer access outside the allocated buffer, an Eigen expression whose operands
  disagree in size, an integer division by zero and the conversion of a NaN to \<^verbatim>\<open>int\<close>
  are undefined behaviour in the C++.  The model reports them as values.
\<close>

datatype error = OutOfBounds | DimMismatch | DivByZero | BadConversion

definition ebind :: "error + 'a \<Rightarrow> ('a \<Rightarrow> error + 'b) \<Rightarrow> error + 'b" where
  "ebind r g = (case r of Inl e \<Rightarrow> Inl e | Inr x \<Rightarrow> g x)"

text \<open>\<^verbatim>\<open>buf[i]\<close> read and written through a pointer with an \<^verbatim>\<open>int\<close> index.\<close>

definition rd :: "'a list \<Rightarrow> int \<Rightarrow> error + 'a" where
  "rd buf i = (if 0 \<le> i \<and> nat i < length buf then Inr (buf ! nat i) else Inl OutOfBounds)"

definition wr :: "'a list \<Rightarrow> int \<Rightarrow> 'a \<Rightarrow> error + 'a list" where
  "wr buf i x = (if 0 \<le> i \<and> nat i < length buf then Inr (buf[nat i := x]) else Inl OutOfBounds)"

text \<open>
  The column-major \<open>n \<times> ncv\<close> matrix \<^verbatim>\<open>Q\<close> is the list of its \<open>ncv\<close> columns;
  \<^verbatim>\<open>Q.col(c)\<close> is read by \<open>col\<close> and assigned by \<open>set_col\<close>.
\<close>

definition col :: "'f list list \<Rightarrow> int \<Rightarrow> error + 'f list" where
  "col Q c = rd Q c"

definition set_col :: "'f list list \<Rightarrow> int \<Rightarrow> 'f list \<Rightarrow> error + 'f list list" where
  "set_col Q c x = wr Q c x"

text \<open>
  Eigen's kernels on vectors: \<^verbatim>\<open>a.dot(b)\<close>, \<^verbatim>\<open>v.squaredNorm()\<close>, \<^verbatim>\<open>v.norm()\<close>
  (the square root of the squared norm), \<^verbatim>\<open>v.normalized()\<close> (which divides by the
  norm when the squared norm is positive and returns a copy of its input otherwise),
  \<^verbatim>\<open>v -= a * u\<close> and \<^verbatim>\<open>v / b\<close>.  Eigen does not fix the order in which a reduction
  adds its terms; here they are added from the left.
\<close>

definition dot :: "'f scalar_ops \<Rightarrow> 'f list \<Rightarrow> 'f list \<Rightarrow> 'f" where
  "dot ar x y = foldl (f_add ar) (f_zero ar) (map2 (f_mul ar) x y)"

definition squaredNorm :: "'f scalar_ops \<Rightarrow> 'f list \<Rightarrow> 'f" where
  "squaredNorm ar x = dot ar x x"

definition norm_v :: "'f scalar_ops \<Rightarrow> 'f list \<Rightarrow> 'f" where
  "norm_v ar x = f_sqrt ar (squaredNorm ar x)"

definition vdiv :: "'f scalar_ops \<Rightarrow> 'f list \<Rightarrow> 'f \<Rightarrow> 'f list" where
  "vdiv ar v b = map (\<lambda>x. f_div ar x b) v"

definition normalized :: "'f scalar_ops \<Rightarrow> 'f list \<Rightarrow> 'f list" where
  "normalized ar x =
     (let z = squaredNorm ar x
      in if f_less ar (f_zero ar) z then vdiv ar x (f_sqrt ar z) else x)"

definition vsub_scaled :: "'f scalar_ops \<Rightarrow> 'f list \<Rightarrow> 'f \<Rightarrow> 'f list \<Rightarrow> 'f list" where
  "vsub_scaled ar v a u = map2 (\<lambda>x y. f_sub ar x (f_mul ar a y)) v u"

text \<open>
  Modelled from the spec: the helper \<^verbatim>\<open>mod\<close> of
  \<^verbatim>\<open>_orthogonalize/orthogonalize.h\<close>, which is not among the sources; the remainder
  with positive-remainder semantics.
\<close>

definition mod_int :: "int \<Rightarrow> int \<Rightarrow> int" where
  "mod_int x n = x mod n"

text \<open>
  The \<^verbatim>\<open>LinearOperator\<close> concept: \<^verbatim>\<open>shape()\<close> and \<^verbatim>\<open>matvec(x, y)\<close>, the latter as
  the function from the input vector to the output it writes.
\<close>

record 'f linear_operator =
  shape :: "nat \<times> nat"
  matvec :: "'f list \<Rightarrow> 'f list"

text \<open>
  \<^verbatim>\<open>orth_vector(v, Q, c, orth, twice)\<close> of \<^verbatim>\<open>_orthogonalize/orthogonalize.h\<close> is not
  among the sources either; the functions below take it as the parameter \<open>ov\<close>, the
  function from its arguments to the vector it leaves in \<^verbatim>\<open>v\<close>.
\<close>

type_synonym 'f orthogonalizer = "'f list \<Rightarrow> 'f list list \<Rightarrow> int \<Rightarrow> int \<Rightarrow> bool \<Rightarrow> 'f list"

section \<open>The Lanczos recurrence\<close>

text \<open>
  The locals and buffers of \<^verbatim>\<open>lanczos_recurrence\<close> inside its loop.  \<open>ls_v\<close> is the
  Eigen map \<^verbatim>\<open>v\<close>, a view of the caller's buffer \<^verbatim>\<open>q\<close>: what is assigned to \<^verbatim>\<open>v\<close>
  is stored in \<^verbatim>\<open>q\<close>.
\<close>

record 'f lanczos_state =
  ls_j :: int
  ls_pos :: "int \<times> int \<times> int"
  ls_alpha :: "'f list"
  ls_beta :: "'f list"
  ls_Q :: "'f list list"
  ls_v :: "'f list"

datatype 'a outcome = Break 'a | Continue 'a

text \<open>One pass through the body of the \<^verbatim>\<open>for\<close> loop (lines 43 to 64).\<close>

definition lanczos_body ::
  "'f scalar_ops \<Rightarrow> 'f orthogonalizer \<Rightarrow> 'f linear_operator \<Rightarrow> int \<Rightarrow> 'f \<Rightarrow> int \<Rightarrow> nat
     \<Rightarrow> 'f lanczos_state \<Rightarrow> error + 'f lanczos_state outcome" where
  "lanczos_body ar ov A k residual_tol orth ncv s =
     (case ls_pos s of (p, c, n) \<Rightarrow>
        ebind (col (ls_Q s) c) (\<lambda>qc.
        ebind (rd (ls_beta s) (ls_j s)) (\<lambda>bj.
        ebind (col (ls_Q s) p) (\<lambda>qp.
        let v2 = vsub_scaled ar (matvec A qc) bj qp;
            aj = dot ar qc v2
        in
        ebind (wr (ls_alpha s) (ls_j s) aj) (\<lambda>alpha'.
        let v3 = vsub_scaled ar v2 aj qc;
            v4 = (if 0 < orth then ov v3 (ls_Q s) c orth True else v3);
            bn = norm_v ar v4
        in
        ebind (wr (ls_beta s) (ls_j s + 1) bn) (\<lambda>beta'.
        if f_less ar bn residual_tol \<or> ls_j s + 1 = k
        then Inr (Break (s\<lparr>ls_alpha := alpha', ls_beta := beta', ls_v := v4\<rparr>))
        else
          ebind (set_col (ls_Q s) n (vdiv ar v4 bn)) (\<lambda>Q'.
          Inr (Continue (s\<lparr>ls_pos := (c, n, mod_int (ls_j s + 2) (int ncv)),
                             ls_alpha := alpha', ls_beta := beta',
                             ls_Q := Q', ls_v := v4\<rparr>)))))))))"

text \<open>
  The loop \<^verbatim>\<open>for (int j = 0; j < k; ++j)\<close>: it ends when the body breaks, or when
  \<open>j\<close> has reached \<open>k\<close>.
\<close>

function lanczos_loop ::
  "'f scalar_ops \<Rightarrow> 'f orthogonalizer \<Rightarrow> 'f linear_operator \<Rightarrow> int \<Rightarrow> 'f \<Rightarrow> int \<Rightarrow> nat
     \<Rightarrow> 'f lanczos_state \<Rightarrow> error + 'f lanczos_state" where
  "lanczos_loop ar ov A k residual_tol orth ncv s =
     (if ls_j s < k then
        (case lanczos_body ar ov A k residual_tol orth ncv s of
           Inl e \<Rightarrow> Inl e
         | Inr (Break s') \<Rightarrow> Inr s'
         | Inr (Continue s') \<Rightarrow>
             lanczos_loop ar ov A k residual_tol orth ncv (s'\<lparr>ls_j := ls_j s + 1\<rparr>))
      else Inr s)"
  by pat_completeness auto
termination
  by (relation "measure (\<lambda>(ar, ov, A, k, residual_tol, orth, ncv, s). nat (k - ls_j s))") auto

declare lanczos_loop.simps [simp del]

text \<open>
  The state in which the loop is entered (lines 33 to 39): column 0 of \<^verbatim>\<open>Q\<close> is the
  normalised probe, and \<^verbatim>\<open>pos = {ncv - 1, 0, 1}\<close>.
\<close>

definition lanczos_init ::
  "'f list \<Rightarrow> 'f list \<Rightarrow> 'f list \<Rightarrow> 'f list list \<Rightarrow> nat \<Rightarrow> 'f lanczos_state" where
  "lanczos_init q alpha beta Q ncv =
     \<lparr>ls_j = 0, ls_pos = (int ncv - 1, 0, 1), ls_alpha = alpha, ls_beta = beta,
      ls_Q = Q, ls_v = q\<rparr>"

text \<open>
  \<^verbatim>\<open>lanczos_recurrence\<close>.  The buffers behind the views \<^verbatim>\<open>Q(V, n, ncv)\<close> and
  \<^verbatim>\<open>v(q, m, 1)\<close> are taken to have exactly these sizes, as \<^verbatim>\<open>slq\<close> allocates them, and
  the assignment \<^verbatim>\<open>Q.col(0) = v.normalized()\<close> needs \<open>m = n\<close>; anything else is
  reported as a mismatch.  The result is the state at the exit of the loop: the buffers
  \<^verbatim>\<open>alpha\<close>, \<^verbatim>\<open>beta\<close>, \<^verbatim>\<open>V\<close> and \<^verbatim>\<open>q\<close> as the call leaves them, and the last
  values of the locals \<^verbatim>\<open>j\<close> and \<^verbatim>\<open>pos\<close>.
\<close>

definition lanczos_recurrence ::
  "'f scalar_ops \<Rightarrow> 'f orthogonalizer \<Rightarrow> 'f linear_operator \<Rightarrow> 'f list \<Rightarrow> int \<Rightarrow> 'f \<Rightarrow> int
     \<Rightarrow> 'f list \<Rightarrow> 'f list \<Rightarrow> 'f list list \<Rightarrow> nat \<Rightarrow> error + 'f lanczos_state" where
  "lanczos_recurrence ar ov A q k lanczos_rtol orth alpha beta V ncv =
     (let n = fst (shape A);
          m = snd (shape A);
          residual_tol = f_mul ar (f_sqrt ar (f_of_nat ar n)) lanczos_rtol
      in
      if length q = m \<and> length V = ncv \<and> list_all (\<lambda>c. length c = n) V \<and> m = n
      then
        ebind (set_col V 0 (normalized ar q)) (\<lambda>Q.
        lanczos_loop ar ov A k residual_tol orth ncv (lanczos_init q alpha beta Q ncv))
      else Inl DimMismatch)"

text \<open>
  The state at the start of the \<open>i\<close>-th pass after \<open>s\<close>, when the passes before it
  all ran to the end of the body.
\<close>

fun lanczos_state_at ::
  "'f scalar_ops \<Rightarrow> 'f orthogonalizer \<Rightarrow> 'f linear_operator \<Rightarrow> int \<Rightarrow> 'f \<Rightarrow> int \<Rightarrow> nat
     \<Rightarrow> nat \<Rightarrow> 'f lanczos_state \<Rightarrow> 'f lanczos_state option" where
  "lanczos_state_at ar ov A k residual_tol orth ncv 0 s = Some s"
| "lanczos_state_at ar ov A k residual_tol orth ncv (Suc i) s =
     (case lanczos_state_at ar ov A k residual_tol orth ncv i s of
        None \<Rightarrow> None
      | Some t \<Rightarrow>
          if ls_j t < k then
            (case lanczos_body ar ov A k residual_tol orth ncv t of
               Inr (Continue t') \<Rightarrow> Some (t'\<lparr>ls_j := ls_j t + 1\<rparr>)
             | Inr (Break t') \<Rightarrow> None
             | Inl e \<Rightarrow> None)
          else None)"

section \<open>Quadrature and the Monte-Carlo driver\<close>

text \<open>
  Eigen's \<^verbatim>\<open>SelfAdjointEigenSolver::computeFromTridiagonal\<close> is a parameter \<open>es\<close>:
  the function from the diagonal and the subdiagonal to the eigenvalues and the matrix
  of eigenvectors, given as the list of its rows.
\<close>

type_synonym 'f eigensolver = "'f list \<Rightarrow> 'f list \<Rightarrow> 'f list \<times> 'f list list"

text \<open>\<^verbatim>\<open>std::copy(src.begin(), src.end(), dst)\<close> into a buffer.\<close>

definition copy_to :: "'a list \<Rightarrow> 'a list \<Rightarrow> error + 'a list" where
  "copy_to src dst =
     (if length src \<le> length dst then Inr (src @ drop (length src) dst) else Inl OutOfBounds)"

text \<open>
  \<^verbatim>\<open>lanczos_quadrature\<close>: the maps \<^verbatim>\<open>a(alpha, k)\<close> and \<^verbatim>\<open>b(beta+1, k-1)\<close>, the
  eigenvalues as nodes and the squares of row 0 of the eigenvectors as weights.  The
  result is the pair of the buffers \<^verbatim>\<open>nodes\<close> and \<^verbatim>\<open>weights\<close> after the call.
\<close>

definition lanczos_quadrature ::
  "'f scalar_ops \<Rightarrow> 'f eigensolver \<Rightarrow> 'f list \<Rightarrow> 'f list \<Rightarrow> int \<Rightarrow> 'f list \<Rightarrow> 'f list
     \<Rightarrow> error + ('f list \<times> 'f list)" where
  "lanczos_quadrature ar es alpha beta k nodes weights =
     (if 1 \<le> k then
        (if nat k \<le> length alpha \<and> nat k \<le> length beta then
           (case es (take (nat k) alpha) (take (nat k - 1) (drop 1 beta)) of (theta, S) \<Rightarrow>
              let tau = map (\<lambda>x. f_mul ar x x) (case S of [] \<Rightarrow> [] | r # rs \<Rightarrow> r)
              in
              ebind (copy_to theta nodes) (\<lambda>nodes'.
              ebind (copy_to tau weights) (\<lambda>weights'.
              Inr (nodes', weights'))))
         else Inl OutOfBounds)
      else Inl DimMismatch)"

text \<open>
  Modelled from the spec: the \<^verbatim>\<open>ThreadSafeRBG\<close> concept and \<^verbatim>\<open>generate_isotropic\<close> of
  \<^verbatim>\<open>_random_generator/vector_generator.h\<close>, which are not among the sources.  The
  generator carries one sub-stream per thread; \<^verbatim>\<open>initialize(num_threads, seed)\<close> sets
  them up, and \<^verbatim>\<open>generate_isotropic(rng, out, n, tid)\<close> writes \<open>n\<close> samples drawn from
  the sub-stream of thread \<open>tid\<close> into \<^verbatim>\<open>out\<close> and advances that sub-stream only.
\<close>

record ('f, 'r) rbg =
  rbg_initialize :: "int \<Rightarrow> int \<Rightarrow> nat \<Rightarrow> 'r"
  rbg_draw :: "'r \<Rightarrow> nat \<Rightarrow> 'f list \<times> 'r"

text \<open>
  What one call \<^verbatim>\<open>f(i, q.data(), Q.data(), nodes.data(), weights.data())\<close> is given:
  the index and the contents of the four buffers at the time of the call.  \<open>c_alpha\<close>
  and \<open>c_beta\<close> record the contents of \<^verbatim>\<open>alpha\<close> and \<^verbatim>\<open>beta\<close> at that time; they are
  not passed to \<^verbatim>\<open>f\<close>.
\<close>

record 'f callback_args =
  c_i :: int
  c_q :: "'f list"
  c_Q :: "'f list list"
  c_nodes :: "'f list"
  c_weights :: "'f list"
  c_alpha :: "'f list"
  c_beta :: "'f list"

text \<open>
  One worker of the parallel region: its sub-stream of the generator, its scratch
  buffers (lines 154 to 159), and the calls of \<^verbatim>\<open>f\<close> it has made so far.
\<close>

record ('f, 'r) worker =
  w_stream :: "'r"
  w_q :: "'f list"
  w_Q :: "'f list list"
  w_alpha :: "'f list"
  w_beta :: "'f list"
  w_nodes :: "'f list"
  w_weights :: "'f list"
  w_calls :: "'f callback_args list"

definition slq_alloc ::
  "'f scalar_ops \<Rightarrow> 'f linear_operator \<Rightarrow> int \<Rightarrow> int \<Rightarrow> 'r \<Rightarrow> ('f, 'r) worker" where
  "slq_alloc ar A lanczos_degree ncv r =
     \<lparr>w_stream = r,
      w_q = replicate (snd (shape A)) (f_zero ar),
      w_Q = replicate (nat ncv) (replicate (fst (shape A)) (f_zero ar)),
      w_alpha = replicate (nat lanczos_degree) (f_zero ar),
      w_beta = replicate (nat lanczos_degree) (f_zero ar),
      w_nodes = replicate (nat lanczos_degree) (f_zero ar),
      w_weights = replicate (nat lanczos_degree) (f_zero ar),
      w_calls = []\<rparr>"

text \<open>The body of the \<^verbatim>\<open>omp for\<close> loop (lines 167 to 176) for the index \<open>i\<close>.\<close>

definition slq_iteration ::
  "'f scalar_ops \<Rightarrow> 'f orthogonalizer \<Rightarrow> 'f eigensolver \<Rightarrow> ('f, 'r) rbg \<Rightarrow> 'f linear_operator
     \<Rightarrow> int \<Rightarrow> 'f \<Rightarrow> int \<Rightarrow> int \<Rightarrow> nat \<Rightarrow> ('f, 'r) worker \<Rightarrow> error + ('f, 'r) worker" where
  "slq_iteration ar ov es rng A lanczos_degree lanczos_rtol orth ncv i w =
     (case rbg_draw rng (w_stream w) (snd (shape A)) of (q, r') \<Rightarrow>
        ebind (lanczos_recurrence ar ov A q lanczos_degree lanczos_rtol orth
                 (w_alpha w) (w_beta w) (w_Q w) (nat ncv)) (\<lambda>s.
        ebind (lanczos_quadrature ar es (ls_alpha s) (ls_beta s) lanczos_degree
                 (w_nodes w) (w_weights w)) (\<lambda>(nodes', weights').
        Inr (w\<lparr>w_stream := r', w_q := ls_v s, w_Q := ls_Q s,
                w_alpha := ls_alpha s, w_beta := ls_beta s,
                w_nodes := nodes', w_weights := weights',
                w_calls := w_calls w @
                  [\<lparr>c_i = int i, c_q = ls_v s, c_Q = ls_Q s, c_nodes = nodes',
                    c_weights = weights', c_alpha = ls_alpha s, c_beta = ls_beta s\<rparr>]\<rparr>))))"

text \<open>
  The iterations one worker is given, in the order it runs them.
\<close>

fun slq_thread ::
  "(nat \<Rightarrow> 'w \<Rightarrow> error + 'w) \<Rightarrow> nat list \<Rightarrow> 'w \<Rightarrow> error + 'w" where
  "slq_thread step [] w = Inr w"
| "slq_thread step (i # is) w = ebind (step i w) (slq_thread step is)"

text \<open>
  The parallel loop.  The workers share nothing that is written but the generator, whose
  sub-streams are per thread, so a run is described by its schedule: the list of the
  pairs (thread, index) in the order in which the iterations are started.
\<close>

fun slq_exec ::
  "(nat \<Rightarrow> 'w \<Rightarrow> error + 'w) \<Rightarrow> (nat \<times> nat) list \<Rightarrow> 'w list \<Rightarrow> error + 'w list" where
  "slq_exec step [] ws = Inr ws"
| "slq_exec step ((tid, i) # sched) ws =
     ebind (step i (ws ! tid)) (\<lambda>w'. slq_exec step sched (ws[tid := w']))"

text \<open>The iterations of thread \<open>t\<close> in a schedule.\<close>

definition thread_iterations :: "nat \<Rightarrow> (nat \<times> nat) list \<Rightarrow> nat list" where
  "thread_iterations t sched = map snd (filter (\<lambda>e. fst e = t) sched)"

text \<open>The quotient of two \<^verbatim>\<open>int\<close>s in C++, which truncates towards zero.\<close>

definition c_div :: "int \<Rightarrow> int \<Rightarrow> int" where
  "c_div a b = sgn a * sgn b * (\<bar>a\<bar> div \<bar>b\<bar>)"

text \<open>The largest \<open>r \<le> r0\<close> with \<open>r * r \<le> x\<close>: the integer part of the square root.\<close>

fun floor_sqrt_from :: "nat \<Rightarrow> nat \<Rightarrow> nat" where
  "floor_sqrt_from x 0 = 0"
| "floor_sqrt_from x (Suc r) = (if Suc r * Suc r \<le> x then Suc r else floor_sqrt_from x r)"

text \<open>
  \<^verbatim>\<open>std::max(int(sqrt(nv / num_threads)), 1)\<close> of line 145.  The quotient is an integer
  division, which has no value for \<open>num_threads = 0\<close>; the square root of a negative
  quotient is a NaN, which has no conversion to \<^verbatim>\<open>int\<close>.
\<close>

definition chunk_size :: "int \<Rightarrow> int \<Rightarrow> error + nat" where
  "chunk_size nv num_threads =
     (if num_threads = 0 then Inl DivByZero
      else
        let x = c_div nv num_threads
        in if x < 0 then Inl BadConversion
           else Inr (max (floor_sqrt_from (nat x) (nat x)) 1))"

text \<open>
  The schedules \<^verbatim>\<open>schedule(dynamic, chunk_size)\<close> allows: every index below \<open>nv\<close> is
  run once, by a thread of the team; the indices of one chunk are run by one thread;
  and a thread runs its indices in increasing order.
\<close>

definition dynamic_schedule :: "nat \<Rightarrow> nat \<Rightarrow> nat \<Rightarrow> (nat \<times> nat) list \<Rightarrow> bool" where
  "dynamic_schedule num_threads nv chunk sched \<longleftrightarrow>
     sort (map snd sched) = [0..<nv] \<and>
     list_all (\<lambda>e. fst e < num_threads) sched \<and>
     list_all (\<lambda>e. list_all (\<lambda>e'. fst e = fst e' \<or> snd e div chunk \<noteq> snd e' div chunk) sched) sched \<and>
     list_all (\<lambda>t. sorted (thread_iterations t sched)) [0..<num_threads]"

text \<open>
  The parallel region under a given list of pairs (thread, index): the generator is
  initialised, every worker allocates its scratch, and the iterations are run.
\<close>

definition slq_run ::
  "'f scalar_ops \<Rightarrow> 'f orthogonalizer \<Rightarrow> 'f eigensolver \<Rightarrow> 'f linear_operator
     \<Rightarrow> ('f, 'r) rbg \<Rightarrow> int \<Rightarrow> 'f \<Rightarrow> int \<Rightarrow> int \<Rightarrow> int \<Rightarrow> int \<Rightarrow> (nat \<times> nat) list
     \<Rightarrow> error + ('f, 'r) worker list" where
  "slq_run ar ov es A rng lanczos_degree lanczos_rtol orth ncv num_threads seed sched =
     slq_exec (slq_iteration ar ov es rng A lanczos_degree lanczos_rtol orth ncv) sched
       (map (\<lambda>tid. slq_alloc ar A lanczos_degree ncv (rbg_initialize rng num_threads seed tid))
          [0..<nat num_threads])"

text \<open>
  \<^verbatim>\<open>slq\<close>.  Its arguments are those of the source, in its order, but for the callback
  \<^verbatim>\<open>f\<close>, whose calls are recorded, and \<^verbatim>\<open>dist\<close>, which the source does not read.  The
  last argument is the schedule the OpenMP runtime chooses.  The chunk size is computed
  before the parallel region is entered (line 145), and a run in which that fails ends
  there, with no call of \<^verbatim>\<open>f\<close>.  Otherwise the result is \<open>None\<close> when the list is not
  a schedule of the loop over \<open>nv\<close> indices, and else the workers at the end of the
  parallel region, each with the calls of \<^verbatim>\<open>f\<close> it made, or the error the run ends
  with.
\<close>

definition slq ::
  "'f scalar_ops \<Rightarrow> 'f orthogonalizer \<Rightarrow> 'f eigensolver \<Rightarrow> 'f linear_operator \<Rightarrow> int
     \<Rightarrow> ('f, 'r) rbg \<Rightarrow> int \<Rightarrow> 'f \<Rightarrow> int \<Rightarrow> int \<Rightarrow> int \<Rightarrow> int \<Rightarrow> (nat \<times> nat) list
     \<Rightarrow> (error + ('f, 'r) worker list) option" where
  "slq ar ov es A nv rng lanczos_degree lanczos_rtol orth ncv num_threads seed sched =
     (case chunk_size nv num_threads of
        Inl e \<Rightarrow> Some (Inl e)
      | Inr chunk \<Rightarrow>
          if dynamic_schedule (nat num_threads) (nat nv) chunk sched
          then Some (slq_run ar ov es A rng lanczos_degree lanczos_rtol orth ncv num_threads seed
                       sched)
          else None)"

section \<open>Notions used in the statements\<close>

text \<open>The state an outcome of the body carries.\<close>

fun outcome_state :: "'a outcome \<Rightarrow> 'a" where
  "outcome_state (Break s) = s"
| "outcome_state (Continue s) = s"

text \<open>
  The state in which \<^verbatim>\<open>lanczos_recurrence\<close> enters its loop, when the buffers have the
  sizes it needs.
\<close>

definition lanczos_entry ::
  "'f scalar_ops \<Rightarrow> 'f list \<Rightarrow> 'f list \<Rightarrow> 'f list \<Rightarrow> 'f list list \<Rightarrow> nat \<Rightarrow> 'f lanczos_state" where
  "lanczos_entry ar q alpha beta V ncv =
     lanczos_init q alpha beta (V[0 := normalized ar q]) ncv"

text \<open>
  The vectors and the coefficient a pass through the body computes from the state \<open>s\<close>
  it starts in: \<open>A q\<^sub>c - beta[j] q\<^sub>p\<close> (lines 44 and 45), \<open>alpha[j]\<close> (line 46), and
  the vector left in \<^verbatim>\<open>v\<close> after line 47 and the re-orthogonalisation of lines 50 to 53.
\<close>

definition lanczos_partial :: "'f scalar_ops \<Rightarrow> 'f linear_operator \<Rightarrow> 'f lanczos_state \<Rightarrow> 'f list" where
  "lanczos_partial ar A s =
     (case ls_pos s of (p, c, n) \<Rightarrow>
        vsub_scaled ar (matvec A (ls_Q s ! nat c)) (ls_beta s ! nat (ls_j s)) (ls_Q s ! nat p))"

definition lanczos_coeff :: "'f scalar_ops \<Rightarrow> 'f linear_operator \<Rightarrow> 'f lanczos_state \<Rightarrow> 'f" where
  "lanczos_coeff ar A s =
     (case ls_pos s of (p, c, n) \<Rightarrow> dot ar (ls_Q s ! nat c) (lanczos_partial ar A s))"

definition lanczos_residual ::
  "'f scalar_ops \<Rightarrow> 'f orthogonalizer \<Rightarrow> 'f linear_operator \<Rightarrow> int \<Rightarrow> 'f lanczos_state \<Rightarrow> 'f list" where
  "lanczos_residual ar ov A orth s =
     (case ls_pos s of (p, c, n) \<Rightarrow>
        let v3 = vsub_scaled ar (lanczos_partial ar A s) (lanczos_coeff ar A s) (ls_Q s ! nat c)
        in if 0 < orth then ov v3 (ls_Q s) c orth True else v3)"

text \<open>The threshold \<^verbatim>\<open>residual_tol = std::sqrt(n) * lanczos_rtol\<close> of line 30.\<close>

definition residual_tol :: "'f scalar_ops \<Rightarrow> 'f linear_operator \<Rightarrow> 'f \<Rightarrow> 'f" where
  "residual_tol ar A lanczos_rtol = f_mul ar (f_sqrt ar (f_of_nat ar (fst (shape A)))) lanczos_rtol"

text \<open>All three column indices lie in \<open>[0, ncv)\<close>.\<close>

definition pos_in_range :: "nat \<Rightarrow> int \<times> int \<times> int \<Rightarrow> bool" where
  "pos_in_range ncv pos =
     (case pos of (p, c, n) \<Rightarrow>
        0 \<le> p \<and> p < int ncv \<and> 0 \<le> c \<and> c < int ncv \<and> 0 \<le> n \<and> n < int ncv)"

text \<open>
  The calls of \<^verbatim>\<open>f\<close> made in a run, and the call made for the index \<open>i\<close>.
\<close>

definition calls_of :: "(error + ('f, 'r) worker list) option \<Rightarrow> 'f callback_args list" where
  "calls_of r =
     (case r of None \<Rightarrow> [] | Some (Inl e) \<Rightarrow> [] | Some (Inr ws) \<Rightarrow> concat (map w_calls ws))"

definition call_for :: "int \<Rightarrow> 'f callback_args list \<Rightarrow> 'f callback_args option" where
  "call_for i cs = find (\<lambda>c. c_i c = i) cs"

section \<open>A scalar type and inputs to run the code on\<close>

text \<open>
  The reals extended by the two infinities and NaN, with the rules of IEEE 754 for
  them (a zero divisor counts as \<open>+0\<close>) and with exact finite results.  An operation
  whose exact result is representable in a binary floating-point format gives the same
  value here as there; the inputs evaluated below are chosen so that every operation is
  of that kind.
\<close>

datatype xfloat = Fin real | PInf | MInf | NaN

fun x_neg :: "xfloat \<Rightarrow> xfloat" where
  "x_neg (Fin a) = Fin (- a)"
| "x_neg PInf = MInf"
| "x_neg MInf = PInf"
| "x_neg NaN = NaN"

fun x_add :: "xfloat \<Rightarrow> xfloat \<Rightarrow> xfloat" where
  "x_add (Fin a) (Fin b) = Fin (a + b)"
| "x_add NaN y = NaN"
| "x_add x NaN = NaN"
| "x_add PInf MInf = NaN"
| "x_add MInf PInf = NaN"
| "x_add PInf y = PInf"
| "x_add x PInf = PInf"
| "x_add MInf y = MInf"
| "x_add x MInf = MInf"

definition x_sub :: "xfloat \<Rightarrow> xfloat \<Rightarrow> xfloat" where
  "x_sub x y = x_add x (x_neg y)"

definition x_inf :: "bool \<Rightarrow> xfloat" where
  "x_inf negative = (if negative then MInf else PInf)"

fun x_mul :: "xfloat \<Rightarrow> xfloat \<Rightarrow> xfloat" where
  "x_mul (Fin a) (Fin b) = Fin (a * b)"
| "x_mul NaN y = NaN"
| "x_mul x NaN = NaN"
| "x_mul (Fin a) PInf = (if a = 0 then NaN else x_inf (a < 0))"
| "x_mul (Fin a) MInf = (if a = 0 then NaN else x_inf (0 < a))"
| "x_mul PInf (Fin b) = (if b = 0 then NaN else x_inf (b < 0))"
| "x_mul MInf (Fin b) = (if b = 0 then NaN else x_inf (0 < b))"
| "x_mul PInf PInf = PInf"
| "x_mul MInf MInf = PInf"
| "x_mul PInf MInf = MInf"
| "x_mul MInf PInf = MInf"

fun x_div :: "xfloat \<Rightarrow> xfloat \<Rightarrow> xfloat" where
  "x_div (Fin a) (Fin b) =
     (if b = 0 then (if a = 0 then NaN else x_inf (a < 0)) else Fin (a / b))"
| "x_div NaN y = NaN"
| "x_div x NaN = NaN"
| "x_div (Fin a) y = Fin 0"
| "x_div PInf (Fin b) = x_inf (b < 0)"
| "x_div MInf (Fin b) = x_inf (0 \<le> b)"
| "x_div x y = NaN"

fun x_sqrt :: "xfloat \<Rightarrow> xfloat" where
  "x_sqrt (Fin a) = (if a < 0 then NaN else Fin (sqrt a))"
| "x_sqrt PInf = PInf"
| "x_sqrt MInf = NaN"
| "x_sqrt NaN = NaN"

fun x_less :: "xfloat \<Rightarrow> xfloat \<Rightarrow> bool" where
  "x_less (Fin a) (Fin b) = (a < b)"
| "x_less NaN y = False"
| "x_less x NaN = False"
| "x_less MInf MInf = False"
| "x_less MInf y = True"
| "x_less x PInf = (x \<noteq> PInf)"
| "x_less x y = False"

definition xr :: "xfloat scalar_ops" where
  "xr = \<lparr>f_zero = Fin 0, f_add = x_add, f_sub = x_sub, f_mul = x_mul, f_div = x_div,
         f_sqrt = x_sqrt, f_less = x_less, f_of_nat = (\<lambda>n. Fin (real n))\<rparr>"

text \<open>A dense matrix, given by its rows, as a linear operator.\<close>

definition dense_operator :: "'f scalar_ops \<Rightarrow> 'f list list \<Rightarrow> 'f linear_operator" where
  "dense_operator ar M =
     \<lparr>shape = (length M, case M of [] \<Rightarrow> 0 | r # rs \<Rightarrow> length r),
      matvec = (\<lambda>x. map (\<lambda>r. dot ar r x) M)\<rparr>"

text \<open>
  A symmetric matrix of order 4.  With \<open>u1 = (1,1,1,1)/2\<close>, \<open>u2 = (1,1,-1,-1)/2\<close> and
  \<open>u3 = (1,-1,1,-1)/2\<close> it maps \<open>u1\<close> to \<open>4 u1 + 2 u2\<close>, \<open>u2\<close> to \<open>2 u1 + 4 u2\<close> and \<open>u3\<close> to 0.
\<close>

definition A4 :: "xfloat linear_operator" where
  "A4 = dense_operator xr
     [[Fin 3, Fin 3, Fin 0, Fin 0],
      [Fin 3, Fin 3, Fin 0, Fin 0],
      [Fin 0, Fin 0, Fin 1, Fin 1],
      [Fin 0, Fin 0, Fin 1, Fin 1]]"

definition A1 :: "xfloat linear_operator" where
  "A1 = dense_operator xr [[Fin 1]]"

text \<open>An operator of order 1 whose only entry is \<open>+\<infinity>\<close>.\<close>

definition A_inf :: "xfloat linear_operator" where
  "A_inf = dense_operator xr [[PInf]]"

text \<open>The values that are not finite: the two infinities and NaN.\<close>

fun x_nonfinite :: "xfloat \<Rightarrow> bool" where
  "x_nonfinite (Fin a) = False"
| "x_nonfinite PInf = True"
| "x_nonfinite MInf = True"
| "x_nonfinite NaN = True"

text \<open>Two probes with entries \<open>\<plusminus>1\<close>, and zero-initialised buffers.\<close>

definition probe_a :: "xfloat list" where
  "probe_a = [Fin 1, Fin 1, Fin 1, Fin 1]"

definition probe_b :: "xfloat list" where
  "probe_b = [Fin 1, Fin (-1), Fin 1, Fin (-1)]"

definition zeros :: "nat \<Rightarrow> xfloat list" where
  "zeros n = replicate n (Fin 0)"

text \<open>
  A generator that replays, for each thread, a fixed cyclic tape of sample vectors.
\<close>

definition tape_rbg :: "(nat \<Rightarrow> 'f list list) \<Rightarrow> ('f, 'f list list) rbg" where
  "tape_rbg tapes =
     \<lparr>rbg_initialize = (\<lambda>num_threads seed tid. tapes tid),
      rbg_draw = (\<lambda>r n. case r of [] \<Rightarrow> ([], []) | x # xs \<Rightarrow> (x, xs @ [x]))\<rparr>"

text \<open>
  Tapes for the runs below: one thread that draws \<open>probe_a\<close> and then \<open>probe_b\<close>,
  and two threads of which thread 0 draws \<open>probe_a\<close> and the others \<open>probe_b\<close>.
\<close>

definition tape_seq :: "nat \<Rightarrow> xfloat list list" where
  "tape_seq tid = [probe_a, probe_b]"

definition tape_par :: "nat \<Rightarrow> xfloat list list" where
  "tape_par tid = (if tid = 0 then [probe_a] else [probe_b])"

text \<open>
  Stand-ins for the two external collaborators, to run the code on concrete inputs: an
  orthogonaliser that leaves the vector as it is, and a solver that returns the
  diagonal and the identity.
\<close>

definition ov_id :: "'f orthogonalizer" where
  "ov_id v Q c orth twice = v"

text \<open>An orthogonaliser that answers only when its flag is set.\<close>

definition ov_flagged :: "'f orthogonalizer" where
  "ov_flagged v Q c orth twice = (if twice then v else [])"

definition es_diag :: "xfloat eigensolver" where
  "es_diag a b = (a, map (\<lambda>i. map (\<lambda>j. if i = j then Fin 1 else Fin 0) [0..<length a]) [0..<length a])"

text \<open>
  The worker \<^verbatim>\<open>slq\<close> allocates for \<open>lanczos_degree = 2\<close> and \<open>ncv = 2\<close>, but for
  \<^verbatim>\<open>beta\<close>, which has the \<open>lanczos_degree + 1 = 3\<close> entries the recurrence writes.
\<close>

definition worker_beta3 :: "(xfloat, xfloat list list) worker" where
  "worker_beta3 = (slq_alloc xr A4 2 2 (tape_seq 0))\<lparr>w_beta := zeros 3\<rparr>"

section \<open>Basic facts\<close>

lemma ebind_Inl [simp]: "ebind (Inl e) g = Inl e"
  by (simp add: ebind_def)

lemma ebind_Inr [simp]: "ebind (Inr x) g = g x"
  by (simp add: ebind_def)

lemma ebind_eq_Inr: "ebind r g = Inr y \<longleftrightarrow> (\<exists>x. r = Inr x \<and> g x = Inr y)"
  by (cases r) simp_all

lemma rd_eq_Inr: "rd buf i = Inr x \<longleftrightarrow> 0 \<le> i \<and> nat i < length buf \<and> x = buf ! nat i"
  by (auto simp: rd_def)

lemma wr_eq_Inr:
  "wr buf i x = Inr buf' \<longleftrightarrow> 0 \<le> i \<and> nat i < length buf \<and> buf' = buf[nat i := x]"
  by (auto simp: wr_def)

section \<open>One pass through the body\<close>

lemma lanczos_body_cases:
  assumes "lanczos_body ar ov A k tol orth ncv s = Inr r"
  shows "0 \<le> ls_j s \<and> nat (ls_j s) < length (ls_alpha s) \<and> nat (ls_j s) + 1 < length (ls_beta s)
     \<and> (r = Break (s\<lparr>ls_alpha := (ls_alpha s)[nat (ls_j s) := lanczos_coeff ar A s],
                      ls_beta := (ls_beta s)[nat (ls_j s) + 1 :=
                                    norm_v ar (lanczos_residual ar ov A orth s)],
                      ls_v := lanczos_residual ar ov A orth s\<rparr>)
          \<and> (f_less ar (norm_v ar (lanczos_residual ar ov A orth s)) tol \<or> ls_j s + 1 = k)
        \<or> r = Continue (s\<lparr>ls_pos := (fst (snd (ls_pos s)), snd (snd (ls_pos s)),
                                       mod_int (ls_j s + 2) (int ncv)),
                      ls_alpha := (ls_alpha s)[nat (ls_j s) := lanczos_coeff ar A s],
                      ls_beta := (ls_beta s)[nat (ls_j s) + 1 :=
                                    norm_v ar (lanczos_residual ar ov A orth s)],
                      ls_Q := (ls_Q s)[nat (snd (snd (ls_pos s))) :=
                                 vdiv ar (lanczos_residual ar ov A orth s)
                                   (norm_v ar (lanczos_residual ar ov A orth s))],
                      ls_v := lanczos_residual ar ov A orth s\<rparr>)
          \<and> \<not> f_less ar (norm_v ar (lanczos_residual ar ov A orth s)) tol \<and> ls_j s + 1 \<noteq> k)"
proof -
  obtain p c n where pos: "ls_pos s = (p, c, n)"
    by (cases "ls_pos s") auto
  from assms show ?thesis
    unfolding lanczos_body_def pos
    by (simp add: lanczos_coeff_def lanczos_partial_def lanczos_residual_def pos
        ebind_eq_Inr rd_eq_Inr wr_eq_Inr col_def set_col_def Let_def nat_add_distrib
        split: if_splits)
qed

lemma lanczos_body_total:
  assumes "pos_in_range (length (ls_Q s)) (ls_pos s)" "0 \<le> ls_j s"
    "nat (ls_j s) < length (ls_alpha s)" "nat (ls_j s) + 1 < length (ls_beta s)"
  shows "\<exists>r. lanczos_body ar ov A k tol orth ncv s = Inr r"
proof -
  obtain p c n where pos: "ls_pos s = (p, c, n)"
    by (cases "ls_pos s") auto
  from assms(1) have r: "0 \<le> p" "nat p < length (ls_Q s)" "0 \<le> c" "nat c < length (ls_Q s)"
    "0 \<le> n" "nat n < length (ls_Q s)"
    by (auto simp: pos_in_range_def pos)
  from assms(2-4) r show ?thesis
    unfolding lanczos_body_def pos
    by (simp add: rd_def wr_def col_def set_col_def Let_def nat_add_distrib)
qed

lemma lanczos_body_state:
  assumes "lanczos_body ar ov A k tol orth ncv s = Inr r"
  shows "ls_j (outcome_state r) = ls_j s"
    and "ls_alpha (outcome_state r) = (ls_alpha s)[nat (ls_j s) := lanczos_coeff ar A s]"
    and "ls_beta (outcome_state r) =
           (ls_beta s)[nat (ls_j s) + 1 := norm_v ar (lanczos_residual ar ov A orth s)]"
    and "ls_v (outcome_state r) = lanczos_residual ar ov A orth s"
    and "length (ls_Q (outcome_state r)) = length (ls_Q s)"
    and "0 \<le> ls_j s" and "nat (ls_j s) < length (ls_alpha s)"
    and "nat (ls_j s) + 1 < length (ls_beta s)"
  using lanczos_body_cases [OF assms] by auto

lemma lanczos_body_Break:
  assumes "lanczos_body ar ov A k tol orth ncv s = Inr (Break s')"
  shows "ls_Q s' = ls_Q s" and "ls_pos s' = ls_pos s"
    and "f_less ar (norm_v ar (lanczos_residual ar ov A orth s)) tol \<or> ls_j s + 1 = k"
  using lanczos_body_cases [OF assms] by auto

lemma lanczos_body_Continue:
  assumes "lanczos_body ar ov A k tol orth ncv s = Inr (Continue s')"
  shows "ls_pos s' = (fst (snd (ls_pos s)), snd (snd (ls_pos s)), mod_int (ls_j s + 2) (int ncv))"
    and "ls_j s + 1 \<noteq> k"
    and "\<not> f_less ar (norm_v ar (lanczos_residual ar ov A orth s)) tol"
  using lanczos_body_cases [OF assms] by auto

lemma lanczos_body_flag:
  assumes "\<forall>v Q c d. ov1 v Q c d True = ov2 v Q c d True"
  shows "lanczos_body ar ov1 A k tol orth ncv s = lanczos_body ar ov2 A k tol orth ncv s"
  unfolding lanczos_body_def using assms by (simp cong: if_cong)

section \<open>The loop and the states it passes through\<close>

lemma lanczos_state_at_Suc_shift:
  "lanczos_state_at ar ov A k tol orth ncv (Suc i) s =
     (if ls_j s < k then
        (case lanczos_body ar ov A k tol orth ncv s of
           Inr (Continue s') \<Rightarrow> lanczos_state_at ar ov A k tol orth ncv i (s'\<lparr>ls_j := ls_j s + 1\<rparr>)
         | Inr (Break s') \<Rightarrow> None
         | Inl e \<Rightarrow> None)
      else None)"
proof (induction i)
  case 0
  show ?case by (simp split: sum.splits outcome.splits)
next
  case (Suc i)
  show ?case
    by (subst lanczos_state_at.simps(2), subst Suc.IH) (simp split: sum.splits outcome.splits)
qed

lemma lanczos_state_at_frame:
  assumes "lanczos_state_at ar ov A k tol orth ncv i s = Some t" "0 \<le> ls_j s"
  shows "ls_j t = ls_j s + int i \<and> length (ls_alpha t) = length (ls_alpha s)
     \<and> length (ls_beta t) = length (ls_beta s) \<and> length (ls_Q t) = length (ls_Q s)
     \<and> (\<forall>m. m < nat (ls_j s) \<or> nat (ls_j s) + i \<le> m \<longrightarrow> ls_alpha t ! m = ls_alpha s ! m)
     \<and> (\<forall>m. m < nat (ls_j s) + 1 \<or> nat (ls_j s) + i + 1 \<le> m \<longrightarrow> ls_beta t ! m = ls_beta s ! m)"
  using assms
proof (induction i arbitrary: t)
  case 0
  then show ?case by simp
next
  case (Suc i)
  from Suc.prems(1) obtain u u' where u: "lanczos_state_at ar ov A k tol orth ncv i s = Some u"
    and b: "lanczos_body ar ov A k tol orth ncv u = Inr (Continue u')"
    and t: "t = u'\<lparr>ls_j := ls_j u + 1\<rparr>"
    by (auto split: option.splits if_splits sum.splits outcome.splits)
  note ih = Suc.IH [OF u Suc.prems(2)]
  note st = lanczos_body_state [OF b, simplified]
  from ih have ju: "nat (ls_j u) = nat (ls_j s) + i"
    using Suc.prems(2) by (simp add: nat_add_distrib)
  show ?case
    using ih st(1) ju Suc.prems(2) unfolding t
    by (simp add: st(2,3,5)) 
qed

lemma lanczos_state_at_less:
  assumes "lanczos_state_at ar ov A k tol orth ncv i s = Some t" "ls_j s < k"
  shows "ls_j t < k"
proof (cases i)
  case 0
  with assms show ?thesis by simp
next
  case (Suc i')
  from assms(1) [unfolded Suc] obtain u u' where "ls_j u < k"
    "lanczos_body ar ov A k tol orth ncv u = Inr (Continue u')" "t = u'\<lparr>ls_j := ls_j u + 1\<rparr>"
    by (auto split: option.splits if_splits sum.splits outcome.splits)
  with lanczos_body_Continue(2) [OF this(2)] show ?thesis by simp
qed

lemma lanczos_loop_state_at:
  assumes "lanczos_state_at ar ov A k tol orth ncv i s = Some t"
  shows "lanczos_loop ar ov A k tol orth ncv s = lanczos_loop ar ov A k tol orth ncv t"
  using assms
proof (induction i arbitrary: t)
  case 0
  then show ?case by simp
next
  case (Suc i)
  from Suc.prems obtain u u' where u: "lanczos_state_at ar ov A k tol orth ncv i s = Some u"
    and lt: "ls_j u < k"
    and b: "lanczos_body ar ov A k tol orth ncv u = Inr (Continue u')"
    and t: "t = u'\<lparr>ls_j := ls_j u + 1\<rparr>"
    by (auto split: option.splits if_splits sum.splits outcome.splits)
  have "lanczos_loop ar ov A k tol orth ncv u = lanczos_loop ar ov A k tol orth ncv t"
    by (subst lanczos_loop.simps) (simp add: lt b t)
  with Suc.IH [OF u] show ?case by simp
qed

lemma lanczos_loop_exit:
  assumes "lanczos_loop ar ov A k tol orth ncv s = Inr sf" "ls_j s < k"
  shows "\<exists>i t. lanczos_state_at ar ov A k tol orth ncv i s = Some t
           \<and> lanczos_body ar ov A k tol orth ncv t = Inr (Break sf)"
  using assms
proof (induction ar ov A k tol orth ncv s rule: lanczos_loop.induct)
  case (1 ar ov A k tol orth ncv s)
  from "1.prems" obtain r where r: "lanczos_body ar ov A k tol orth ncv s = Inr r"
    by (subst (asm) lanczos_loop.simps) (auto split: sum.splits)
  show ?case
  proof (cases r)
    case (Break s')
    with "1.prems" r have "s' = sf"
      by (subst (asm) lanczos_loop.simps) simp
    with r Break have "lanczos_state_at ar ov A k tol orth ncv 0 s = Some s
        \<and> lanczos_body ar ov A k tol orth ncv s = Inr (Break sf)"
      by simp
    then show ?thesis by blast
  next
    case (Continue s')
    let ?s = "s'\<lparr>ls_j := ls_j s + 1\<rparr>"
    from "1.prems" r Continue have l: "lanczos_loop ar ov A k tol orth ncv ?s = Inr sf"
      by (subst (asm) lanczos_loop.simps) simp
    from lanczos_body_Continue(2) [OF r [unfolded Continue]] "1.prems"(2)
    have lt: "ls_j ?s < k" by simp
    from "1.IH" [OF "1.prems"(2) r Continue l lt]
    obtain i t where it: "lanczos_state_at ar ov A k tol orth ncv i ?s = Some t"
      "lanczos_body ar ov A k tol orth ncv t = Inr (Break sf)"
      by blast
    have "lanczos_state_at ar ov A k tol orth ncv (Suc i) s = Some t"
      by (subst lanczos_state_at_Suc_shift) (simp add: "1.prems"(2) r Continue it(1))
    with it(2) show ?thesis by blast
  qed
qed

lemma lanczos_loop_stop:
  assumes "lanczos_loop ar ov A k tol orth ncv s = Inr sf" "ls_j s < k" "0 \<le> ls_j s"
  shows "\<exists>t. lanczos_state_at ar ov A k tol orth ncv (nat (ls_j sf - ls_j s)) s = Some t
           \<and> lanczos_body ar ov A k tol orth ncv t = Inr (Break sf)
           \<and> ls_j t = ls_j sf \<and> ls_j s \<le> ls_j sf \<and> ls_j sf < k"
proof -
  from lanczos_loop_exit [OF assms(1,2)] obtain i t
    where it: "lanczos_state_at ar ov A k tol orth ncv i s = Some t"
      "lanczos_body ar ov A k tol orth ncv t = Inr (Break sf)"
    by blast
  from lanczos_state_at_frame [OF it(1) assms(3)] have jt: "ls_j t = ls_j s + int i"
    by simp
  from lanczos_body_state(1) [OF it(2)] have jf: "ls_j sf = ls_j t"
    by simp
  have i: "nat (ls_j sf - ls_j s) = i"
    using jt jf by simp
  have "ls_j t < k"
  proof (cases i)
    case 0
    with it(1) assms(2) show ?thesis by simp
  next
    case (Suc i')
    from it(1) [unfolded Suc] obtain u u' where "ls_j u < k"
      "lanczos_body ar ov A k tol orth ncv u = Inr (Continue u')" "t = u'\<lparr>ls_j := ls_j u + 1\<rparr>"
      by (auto split: option.splits if_splits sum.splits outcome.splits)
    with lanczos_body_Continue(2) [OF this(2)] show ?thesis by simp
  qed
  with it jt jf i show ?thesis by auto
qed

lemma lanczos_loop_frame:
  assumes "lanczos_loop ar ov A k tol orth ncv s = Inr sf" "0 \<le> ls_j s"
  shows "(\<forall>m. m < nat (ls_j s) \<longrightarrow> ls_alpha sf ! m = ls_alpha s ! m)
     \<and> (\<forall>m. m < nat (ls_j s) + 1 \<longrightarrow> ls_beta sf ! m = ls_beta s ! m)"
proof (cases "ls_j s < k")
  case False
  with assms(1) have "sf = s"
    by (subst (asm) lanczos_loop.simps) simp
  then show ?thesis by simp
next
  case True
  from lanczos_loop_stop [OF assms(1) True assms(2)] obtain t
    where t: "lanczos_state_at ar ov A k tol orth ncv (nat (ls_j sf - ls_j s)) s = Some t"
      and b: "lanczos_body ar ov A k tol orth ncv t = Inr (Break sf)"
      and j: "ls_j t = ls_j sf" "ls_j s \<le> ls_j sf"
    by blast
  note fr = lanczos_state_at_frame [OF t assms(2)]
  note st = lanczos_body_state [OF b, simplified, unfolded j(1)]
  show ?thesis
    using fr j(2) assms(2) by (simp add: st(2,3))
qed

lemma lanczos_loop_first:
  assumes "lanczos_loop ar ov A k tol orth ncv s = Inr sf" "ls_j s < k"
  shows "\<exists>r. lanczos_body ar ov A k tol orth ncv s = Inr r
     \<and> ls_alpha sf ! nat (ls_j s) = lanczos_coeff ar A s
     \<and> ls_beta sf ! nat (ls_j s) = ls_beta s ! nat (ls_j s)
     \<and> ls_beta sf ! (nat (ls_j s) + 1) = norm_v ar (lanczos_residual ar ov A orth s)"
proof -
  from assms obtain r where r: "lanczos_body ar ov A k tol orth ncv s = Inr r"
    by (subst (asm) lanczos_loop.simps) (auto split: sum.splits)
  note st = lanczos_body_state [OF r]
  have "ls_alpha sf ! nat (ls_j s) = lanczos_coeff ar A s
     \<and> ls_beta sf ! nat (ls_j s) = ls_beta s ! nat (ls_j s)
     \<and> ls_beta sf ! (nat (ls_j s) + 1) = norm_v ar (lanczos_residual ar ov A orth s)"
  proof (cases r)
    case (Break s')
    with assms r have "s' = sf"
      by (subst (asm) lanczos_loop.simps) simp
    with st Break show ?thesis by simp
  next
    case (Continue s')
    let ?s = "s'\<lparr>ls_j := ls_j s + 1\<rparr>"
    from assms r Continue have l: "lanczos_loop ar ov A k tol orth ncv ?s = Inr sf"
      by (subst (asm) lanczos_loop.simps) simp
    have "0 \<le> ls_j ?s" using st(6) by simp
    from lanczos_loop_frame [OF l this] st(6)
    have "ls_alpha sf ! nat (ls_j s) = ls_alpha s' ! nat (ls_j s)"
      "ls_beta sf ! nat (ls_j s) = ls_beta s' ! nat (ls_j s)"
      "ls_beta sf ! (nat (ls_j s) + 1) = ls_beta s' ! (nat (ls_j s) + 1)"
      by (simp_all add: nat_add_distrib)
    with st Continue show ?thesis by simp
  qed
  with r show ?thesis by blast
qed

lemma lanczos_loop_flag:
  assumes "\<forall>v Q c d. ov1 v Q c d True = ov2 v Q c d True"
  shows "lanczos_loop ar ov1 A k tol orth ncv s = lanczos_loop ar ov2 A k tol orth ncv s"
  using assms
proof (induction ar ov1 A k tol orth ncv s rule: lanczos_loop.induct)
  case (1 ar ov1 A k tol orth ncv s)
  have b: "lanczos_body ar ov1 A k tol orth ncv s = lanczos_body ar ov2 A k tol orth ncv s"
    by (rule lanczos_body_flag [where ?ov1.0 = ov1 and ?ov2.0 = ov2, OF "1.prems"])
  show ?case
  proof (cases "ls_j s < k")
    case False
    then show ?thesis
      by (subst lanczos_loop.simps, subst (2) lanczos_loop.simps) simp
  next
    case True
    show ?thesis
    proof (cases "lanczos_body ar ov1 A k tol orth ncv s")
      case (Inl e)
      then have "lanczos_body ar ov2 A k tol orth ncv s = Inl e"
        by (simp add: b [symmetric])
      with True Inl show ?thesis
        by (subst lanczos_loop.simps, subst (2) lanczos_loop.simps) simp
    next
      case (Inr r)
      then have r2: "lanczos_body ar ov2 A k tol orth ncv s = Inr r"
        by (simp add: b [symmetric])
      show ?thesis
      proof (cases r)
        case (Break s')
        with True Inr r2 show ?thesis
          by (subst lanczos_loop.simps, subst (2) lanczos_loop.simps) simp
      next
        case (Continue s')
        from "1.IH" [OF True Inr Continue "1.prems"] True Inr r2 Continue show ?thesis
          by (subst lanczos_loop.simps, subst (2) lanczos_loop.simps) simp
      qed
    qed
  qed
qed

lemma lanczos_loop_total:
  assumes "pos_in_range ncv (ls_pos s)" "length (ls_Q s) = ncv" "0 < ncv" "0 \<le> ls_j s"
    "nat k \<le> length (ls_alpha s)" "nat k + 1 \<le> length (ls_beta s)"
  shows "\<exists>sf. lanczos_loop ar ov A k tol orth ncv s = Inr sf"
  using assms
proof (induction ar ov A k tol orth ncv s rule: lanczos_loop.induct)
  case (1 ar ov A k tol orth ncv s)
  show ?case
  proof (cases "ls_j s < k")
    case False
    then show ?thesis
      by (subst lanczos_loop.simps) simp
  next
    case True
    have "pos_in_range (length (ls_Q s)) (ls_pos s)" "nat (ls_j s) < length (ls_alpha s)"
      "nat (ls_j s) + 1 < length (ls_beta s)"
      using "1.prems" True by auto
    from lanczos_body_total [OF this(1) "1.prems"(4) this(2,3)]
    obtain r where r: "lanczos_body ar ov A k tol orth ncv s = Inr r"
      by blast
    show ?thesis
    proof (cases r)
      case (Break s')
      with True r show ?thesis
        by (subst lanczos_loop.simps) simp
    next
      case (Continue s')
      let ?s = "s'\<lparr>ls_j := ls_j s + 1\<rparr>"
      note st = lanczos_body_state [OF r, unfolded Continue, simplified]
      have p: "pos_in_range ncv (ls_pos ?s)"
        using lanczos_body_Continue(1) [OF r [unfolded Continue]] "1.prems"(1,3)
        by (auto simp: pos_in_range_def mod_int_def split: prod.splits)
      have "\<exists>sf. lanczos_loop ar ov A k tol orth ncv ?s = Inr sf"
        using "1.prems" st
        by (intro "1.IH" [OF True r Continue p]) simp_all
      with True r Continue show ?thesis
        by (subst lanczos_loop.simps) simp
    qed
  qed
qed

section \<open>The recurrence as a whole\<close>

lemma lanczos_recurrence_Inr:
  assumes "lanczos_recurrence ar ov A q k rtol orth alpha beta V ncv = Inr sf"
  shows "lanczos_loop ar ov A k (residual_tol ar A rtol) orth ncv
           (lanczos_entry ar q alpha beta V ncv) = Inr sf"
    and "length V = ncv" and "0 < ncv"
  using assms
  by (auto simp: lanczos_recurrence_def lanczos_entry_def residual_tol_def Let_def
      ebind_eq_Inr set_col_def wr_eq_Inr split: if_splits)

lemma lanczos_entry_simps:
  "ls_j (lanczos_entry ar q alpha beta V ncv) = 0"
  "ls_pos (lanczos_entry ar q alpha beta V ncv) = (int ncv - 1, 0, 1)"
  "ls_alpha (lanczos_entry ar q alpha beta V ncv) = alpha"
  "ls_beta (lanczos_entry ar q alpha beta V ncv) = beta"
  "ls_Q (lanczos_entry ar q alpha beta V ncv) = V[0 := normalized ar q]"
  "ls_v (lanczos_entry ar q alpha beta V ncv) = q"
  by (simp_all add: lanczos_entry_def lanczos_init_def)

lemma lanczos_recurrence_stop:
  assumes "lanczos_recurrence ar ov A q k rtol orth alpha beta V ncv = Inr sf" "1 \<le> k"
  shows "\<exists>t. lanczos_state_at ar ov A k (residual_tol ar A rtol) orth ncv (nat (ls_j sf))
               (lanczos_entry ar q alpha beta V ncv) = Some t
           \<and> lanczos_body ar ov A k (residual_tol ar A rtol) orth ncv t = Inr (Break sf)
           \<and> ls_j t = ls_j sf \<and> 0 \<le> ls_j sf \<and> ls_j sf < k"
  using lanczos_loop_stop [OF lanczos_recurrence_Inr(1) [OF assms(1)]] assms(2)
  by (simp add: lanczos_entry_simps)

lemma lanczos_recurrence_residual:
  assumes "lanczos_recurrence ar ov A q k rtol orth alpha beta V ncv = Inr sf" "1 \<le> k"
  shows "\<exists>t. lanczos_state_at ar ov A k (residual_tol ar A rtol) orth ncv (nat (ls_j sf))
               (lanczos_entry ar q alpha beta V ncv) = Some t
           \<and> ls_v sf = lanczos_residual ar ov A orth t
           \<and> ls_beta sf ! (nat (ls_j sf) + 1) = norm_v ar (lanczos_residual ar ov A orth t)"
proof -
  from lanczos_recurrence_stop [OF assms] obtain t
    where t: "lanczos_state_at ar ov A k (residual_tol ar A rtol) orth ncv (nat (ls_j sf))
               (lanczos_entry ar q alpha beta V ncv) = Some t"
      and b: "lanczos_body ar ov A k (residual_tol ar A rtol) orth ncv t = Inr (Break sf)"
      and j: "ls_j t = ls_j sf"
    by blast
  note st = lanczos_body_state [OF b, simplified, unfolded j]
  have "ls_beta sf ! (nat (ls_j sf) + 1) = norm_v ar (lanczos_residual ar ov A orth t)"
    using st(8) by (simp add: st(3))
  with t st(4) show ?thesis by blast
qed

text \<open>
  With \<open>k\<close> entries of \<^verbatim>\<open>beta\<close>, as a worker of \<^verbatim>\<open>slq\<close> allocates them, the recurrence
  returns only when it stops before its last step: the last step writes outside.
\<close>

lemma lanczos_recurrence_short_beta:
  assumes "lanczos_recurrence ar ov A q k rtol orth alpha beta V ncv = Inr sf" "1 \<le> k"
    and "length beta = nat k"
  shows "ls_j sf + 1 < k"
proof -
  from lanczos_recurrence_stop [OF assms(1,2)] obtain t
    where t: "lanczos_state_at ar ov A k (residual_tol ar A rtol) orth ncv (nat (ls_j sf))
               (lanczos_entry ar q alpha beta V ncv) = Some t"
      and b: "lanczos_body ar ov A k (residual_tol ar A rtol) orth ncv t = Inr (Break sf)"
      and j: "ls_j t = ls_j sf" "0 \<le> ls_j sf"
    by blast
  from lanczos_state_at_frame [OF t] have "length (ls_beta t) = length beta"
    by (simp add: lanczos_entry_simps)
  with lanczos_body_state(8) [OF b] assms(3) j show ?thesis
    by simp
qed

lemma lanczos_recurrence_total:
  assumes "shape A = (n, n)" "length q = n" "length V = ncv" "list_all (\<lambda>c. length c = n) V"
    "2 \<le> ncv" "nat k \<le> length alpha" "nat k + 1 \<le> length beta"
  shows "\<exists>sf. lanczos_recurrence ar ov A q k rtol orth alpha beta V ncv = Inr sf"
proof -
  have "pos_in_range ncv (ls_pos (lanczos_init q alpha beta (V[0 := normalized ar q]) ncv))"
    using assms(5) by (simp add: lanczos_init_def pos_in_range_def)
  from lanczos_loop_total [OF this, where ar = ar and ov = ov and A = A and k = k
      and tol = "residual_tol ar A rtol" and orth = orth] assms
  show ?thesis
    by (simp add: lanczos_recurrence_def lanczos_init_def residual_tol_def set_col_def wr_def)
qed

lemma pos_at_step:
  assumes "2 \<le> ncv"
    and "lanczos_state_at ar ov A k tol orth ncv j (lanczos_init q alpha beta Q ncv) = Some t"
  shows "ls_pos t =
     (if j = 0 then (int ncv - 1, 0, 1)
      else ((int j - 1) mod int ncv, int j mod int ncv, (int j + 1) mod int ncv))"
  using assms(2)
proof (induction j arbitrary: t)
  case 0
  then show ?case by (auto simp: lanczos_init_def)
next
  case (Suc j)
  from Suc.prems obtain u u'
    where u: "lanczos_state_at ar ov A k tol orth ncv j (lanczos_init q alpha beta Q ncv) = Some u"
    and b: "lanczos_body ar ov A k tol orth ncv u = Inr (Continue u')"
    and t: "t = u'\<lparr>ls_j := ls_j u + 1\<rparr>"
    by (auto split: option.splits if_splits sum.splits outcome.splits)
  have ju: "ls_j u = int j"
    using lanczos_state_at_frame [OF u] by (simp add: lanczos_init_def)
  have "ls_pos t = (fst (snd (ls_pos u)), snd (snd (ls_pos u)), (int j + 2) mod int ncv)"
    using lanczos_body_Continue(1) [OF b] by (simp add: t ju mod_int_def)
  with Suc.IH [OF u] assms(1) show ?case
    by (cases "j = 0") (simp_all add: add.commute)
qed

lemma lanczos_first_column:
  assumes "2 \<le> ncv" "length V = ncv"
    and "lanczos_state_at ar ov A k tol orth ncv i (lanczos_entry ar q alpha beta V ncv) = Some t"
    and "i < ncv"
  shows "ls_Q t ! 0 = normalized ar q"
  using assms(3,4)
proof (induction i arbitrary: t)
  case 0
  then have "t = lanczos_entry ar q alpha beta V ncv" by simp
  then show ?case using assms(1,2) by (simp add: lanczos_entry_simps)
next
  case (Suc i)
  from Suc.prems(1) obtain u u'
    where u: "lanczos_state_at ar ov A k tol orth ncv i (lanczos_entry ar q alpha beta V ncv) = Some u"
    and b: "lanczos_body ar ov A k tol orth ncv u = Inr (Continue u')"
    and t: "t = u'\<lparr>ls_j := ls_j u + 1\<rparr>"
    by (auto split: option.splits if_splits sum.splits outcome.splits)
  have ih: "ls_Q u ! 0 = normalized ar q"
    using Suc.IH [OF u] Suc.prems(2) by simp
  have pos: "ls_pos u =
     (if i = 0 then (int ncv - 1, 0, 1)
      else ((int i - 1) mod int ncv, int i mod int ncv, (int i + 1) mod int ncv))"
    using pos_at_step [OF assms(1) u [unfolded lanczos_entry_def]] .
  have n: "nat (snd (snd (ls_pos u))) \<noteq> 0"
    using Suc.prems(2) by (simp add: pos nat_add_distrib)
  from lanczos_body_cases [OF b]
  have "ls_Q u' = (ls_Q u)[nat (snd (snd (ls_pos u))) :=
                                 vdiv ar (lanczos_residual ar ov A orth u)
                                   (norm_v ar (lanczos_residual ar ov A orth u))]"
    by auto
  with n ih show ?case
    by (simp add: t)
qed

lemma lanczos_recurrence_first_column:
  assumes "lanczos_recurrence ar ov A q k rtol orth alpha beta V ncv = Inr sf" "1 \<le> k"
    and "2 \<le> ncv" "ls_j sf < int ncv"
  shows "ls_Q sf ! 0 = normalized ar q"
proof -
  from lanczos_recurrence_stop [OF assms(1,2)] obtain t
    where t: "lanczos_state_at ar ov A k (residual_tol ar A rtol) orth ncv (nat (ls_j sf))
               (lanczos_entry ar q alpha beta V ncv) = Some t"
      and b: "lanczos_body ar ov A k (residual_tol ar A rtol) orth ncv t = Inr (Break sf)"
      and j: "0 \<le> ls_j sf"
    by blast
  have "nat (ls_j sf) < ncv" using assms(4) j by simp
  from lanczos_first_column [OF assms(3) lanczos_recurrence_Inr(2) [OF assms(1)] t this]
    lanczos_body_Break(1) [OF b]
  show ?thesis by simp
qed

lemma lanczos_recurrence_lengths:
  assumes "lanczos_recurrence ar ov A q k rtol orth alpha beta V ncv = Inr sf" "1 \<le> k"
  shows "length (ls_alpha sf) = length alpha" and "length (ls_beta sf) = length beta"
proof -
  from lanczos_recurrence_stop [OF assms] obtain t
    where t: "lanczos_state_at ar ov A k (residual_tol ar A rtol) orth ncv (nat (ls_j sf))
               (lanczos_entry ar q alpha beta V ncv) = Some t"
      and b: "lanczos_body ar ov A k (residual_tol ar A rtol) orth ncv t = Inr (Break sf)"
    by blast
  from lanczos_state_at_frame [OF t] have l: "length (ls_alpha t) = length alpha"
    "length (ls_beta t) = length beta"
    by (simp_all add: lanczos_entry_simps)
  note st = lanczos_body_state [OF b, simplified]
  show "length (ls_alpha sf) = length alpha" and "length (ls_beta sf) = length beta"
    by (simp_all add: st(2,3) l)
qed

lemma lanczos_recurrence_values:
  assumes "lanczos_recurrence ar ov A q k rtol orth alpha beta V ncv = Inr sf" "1 \<le> k"
    and "lanczos_state_at ar ov A k (residual_tol ar A rtol) orth ncv j
           (lanczos_entry ar q alpha beta V ncv) = Some t"
  shows "j \<le> nat (ls_j sf)" and "ls_alpha sf ! j = lanczos_coeff ar A t"
    and "ls_beta sf ! (j + 1) = norm_v ar (lanczos_residual ar ov A orth t)"
proof -
  have jt: "ls_j t = int j"
    using lanczos_state_at_frame [OF assms(3)] by (simp add: lanczos_entry_simps)
  have lt: "ls_j t < k"
    using lanczos_state_at_less [OF assms(3)] assms(2) by (simp add: lanczos_entry_simps)
  have l: "lanczos_loop ar ov A k (residual_tol ar A rtol) orth ncv t = Inr sf"
    using lanczos_loop_state_at [OF assms(3)] lanczos_recurrence_Inr(1) [OF assms(1)] by simp
  from lanczos_loop_stop [OF l lt] show "j \<le> nat (ls_j sf)"
    by (auto simp: jt)
  from lanczos_loop_first [OF l lt] show "ls_alpha sf ! j = lanczos_coeff ar A t"
    and "ls_beta sf ! (j + 1) = norm_v ar (lanczos_residual ar ov A orth t)"
    by (auto simp: jt)
qed

lemma foldl_add_zeros:
  assumes "f_add ar (f_zero ar) (f_zero ar) = f_zero ar"
  shows "foldl (f_add ar) (f_zero ar) (replicate n (f_zero ar)) = f_zero ar"
  using assms by (induction n) simp_all

lemma dot_zeros:
  assumes "f_add ar (f_zero ar) (f_zero ar) = f_zero ar"
    and "f_mul ar (f_zero ar) (f_zero ar) = f_zero ar"
  shows "dot ar (replicate n (f_zero ar)) (replicate m (f_zero ar)) = f_zero ar"
  by (simp add: dot_def zip_replicate assms foldl_add_zeros)

lemma vsub_scaled_zeros:
  assumes "f_sub ar (f_zero ar) (f_zero ar) = f_zero ar"
    and "length u = n" and "\<forall>x\<in>set u. f_mul ar a x = f_zero ar"
  shows "vsub_scaled ar (replicate n (f_zero ar)) a u = replicate n (f_zero ar)"
  using assms(2,3) unfolding vsub_scaled_def
proof (induction u arbitrary: n)
  case Nil
  then show ?case by simp
next
  case (Cons x u)
  then obtain n' where n: "n = Suc n'" by (cases n) auto
  with Cons show ?case by (simp add: assms(1))
qed

lemma lanczos_zero_probe:
  assumes sh: "shape A = (n, n)" and V: "length V = ncv" "list_all (\<lambda>c. length c = n) V"
    and ncv: "2 \<le> ncv" and k: "1 \<le> k" and la: "1 \<le> length alpha" and lb: "2 \<le> length beta"
    and z: "f_add ar (f_zero ar) (f_zero ar) = f_zero ar"
      "f_mul ar (f_zero ar) (f_zero ar) = f_zero ar"
      "f_sub ar (f_zero ar) (f_zero ar) = f_zero ar"
      "f_sqrt ar (f_zero ar) = f_zero ar"
      "\<not> f_less ar (f_zero ar) (f_zero ar)"
    and tol: "f_less ar (f_zero ar) (residual_tol ar A rtol)"
    and A0: "matvec A (replicate n (f_zero ar)) = replicate n (f_zero ar)"
    and prev: "\<forall>x\<in>set (V ! (ncv - 1)). f_mul ar (beta ! 0) x = f_zero ar"
    and ov0: "0 < orth \<longrightarrow>
        ov (replicate n (f_zero ar)) (V[0 := replicate n (f_zero ar)]) 0 orth True =
        replicate n (f_zero ar)"
  shows "lanczos_recurrence ar ov A (replicate n (f_zero ar)) k rtol orth alpha beta V ncv =
     Inr \<lparr>ls_j = 0, ls_pos = (int ncv - 1, 0, 1), ls_alpha = alpha[0 := f_zero ar],
           ls_beta = beta[1 := f_zero ar], ls_Q = V[0 := replicate n (f_zero ar)],
           ls_v = replicate n (f_zero ar)\<rparr>"
proof -
  let ?z = "replicate n (f_zero ar)"
  have nz: "normalized ar ?z = ?z"
    by (simp add: normalized_def squaredNorm_def dot_zeros z)
  have lp: "length (V ! (ncv - Suc 0)) = n"
    using V ncv by (simp add: list_all_length)
  have qp: "(V[0 := ?z]) ! nat (int ncv - 1) = V ! (ncv - Suc 0)"
    using ncv V by (simp add: nat_diff_distrib)
  have v2: "vsub_scaled ar ?z (beta ! 0) (V ! (ncv - Suc 0)) = ?z"
    using prev by (intro vsub_scaled_zeros [OF z(3) lp]) simp
  have v3: "vsub_scaled ar ?z (f_zero ar) ?z = ?z"
    by (rule vsub_scaled_zeros [OF z(3)]) (simp_all add: z)
  have nv: "norm_v ar ?z = f_zero ar"
    by (simp add: norm_v_def squaredNorm_def dot_zeros z)
  have v4: "0 < orth \<Longrightarrow> ov ?z (V[0 := ?z]) 0 orth True = ?z"
    using ov0 by simp
  have b: "lanczos_body ar ov A k (residual_tol ar A rtol) orth ncv
        (lanczos_init ?z alpha beta (V[0 := ?z]) ncv) =
      Inr (Break \<lparr>ls_j = 0, ls_pos = (int ncv - 1, 0, 1), ls_alpha = alpha[0 := f_zero ar],
           ls_beta = beta[1 := f_zero ar], ls_Q = V[0 := ?z], ls_v = ?z\<rparr>)"
    using V(1) ncv la lb tol
    by (simp add: lanczos_body_def lanczos_init_def col_def rd_def wr_def qp A0 v2 v3 v4 nv
        dot_zeros z Let_def) auto
  have "lanczos_loop ar ov A k (residual_tol ar A rtol) orth ncv
        (lanczos_init ?z alpha beta (V[0 := ?z]) ncv) =
      Inr \<lparr>ls_j = 0, ls_pos = (int ncv - 1, 0, 1), ls_alpha = alpha[0 := f_zero ar],
           ls_beta = beta[1 := f_zero ar], ls_Q = V[0 := ?z], ls_v = ?z\<rparr>"
    using k by (subst lanczos_loop.simps) (simp add: b, simp add: lanczos_init_def)
  then show ?thesis
    using sh V ncv
    by (simp add: lanczos_recurrence_def set_col_def wr_def nz residual_tol_def)
qed

section \<open>Values that absorb the arithmetic\<close>

text \<open>
  A set of values is absorbing when every sum, difference and product with an operand in
  the set, and the square root of a value in the set, is in the set again, as for NaN
  and the infinities in IEEE arithmetic.  Such a value among the components of \<open>A q\<^sub>c\<close>
  reaches \<open>alpha[j]\<close>, and without re-orthogonalisation \<open>beta[j+1]\<close>.
\<close>

lemma foldl_add_absorbed:
  assumes "\<forall>x y. bad x \<longrightarrow> bad (f_add ar x y) \<and> bad (f_add ar y x)"
    and "bad z \<or> (\<exists>x\<in>set xs. bad x)"
  shows "bad (foldl (f_add ar) z xs)"
  using assms(2)
proof (induction xs arbitrary: z)
  case Nil
  then show ?case by simp
next
  case (Cons x xs)
  from Cons.prems assms(1) have "bad (f_add ar z x) \<or> (\<exists>x\<in>set xs. bad x)"
    by auto
  from Cons.IH [OF this] show ?case by simp
qed

lemma dot_absorbed:
  assumes "\<forall>x y. bad x \<longrightarrow> bad (f_add ar x y) \<and> bad (f_add ar y x)"
    and "\<forall>x y. bad x \<longrightarrow> bad (f_mul ar y x)"
    and "i < length x" "i < length y" "bad (y ! i)"
  shows "bad (dot ar x y)"
proof -
  have "map2 (f_mul ar) x y ! i = f_mul ar (x ! i) (y ! i)" "i < length (map2 (f_mul ar) x y)"
    using assms(3,4) by simp_all
  with assms(2,5) have "\<exists>e\<in>set (map2 (f_mul ar) x y). bad e"
    by (metis nth_mem)
  then show ?thesis
    unfolding dot_def by (intro foldl_add_absorbed [OF assms(1)]) simp
qed

lemma vsub_scaled_absorbed:
  assumes "\<forall>x y. bad x \<longrightarrow> bad (f_sub ar x y)"
    and "i < length v" "i < length u" "bad (v ! i)"
  shows "i < length (vsub_scaled ar v a u) \<and> bad (vsub_scaled ar v a u ! i)"
  using assms by (simp add: vsub_scaled_def)

lemma norm_v_absorbed:
  assumes "\<forall>x y. bad x \<longrightarrow> bad (f_add ar x y) \<and> bad (f_add ar y x)"
    and "\<forall>x y. bad x \<longrightarrow> bad (f_mul ar y x)"
    and "\<forall>x. bad x \<longrightarrow> bad (f_sqrt ar x)"
    and "i < length v" "bad (v ! i)"
  shows "bad (norm_v ar v)"
  using dot_absorbed [OF assms(1,2,4,4,5)] assms(3) by (simp add: norm_v_def squaredNorm_def)

lemma lanczos_step_absorbed:
  assumes ab: "\<forall>x y. bad x \<longrightarrow> bad (f_add ar x y) \<and> bad (f_add ar y x) \<and> bad (f_sub ar x y)
                        \<and> bad (f_mul ar y x) \<and> bad (f_sqrt ar x)"
    and i: "i < length (ls_Q t ! nat (fst (snd (ls_pos t))))"
      "i < length (ls_Q t ! nat (fst (ls_pos t)))"
      "i < length (matvec A (ls_Q t ! nat (fst (snd (ls_pos t)))))"
    and b: "bad (matvec A (ls_Q t ! nat (fst (snd (ls_pos t)))) ! i)"
  shows "bad (lanczos_coeff ar A t)"
    and "orth \<le> 0 \<Longrightarrow> bad (norm_v ar (lanczos_residual ar ov A orth t))"
proof -
  obtain p c n where pos: "ls_pos t = (p, c, n)"
    by (cases "ls_pos t") auto
  from ab have a1: "\<forall>x y. bad x \<longrightarrow> bad (f_add ar x y) \<and> bad (f_add ar y x)"
    and a2: "\<forall>x y. bad x \<longrightarrow> bad (f_mul ar y x)"
    and a3: "\<forall>x y. bad x \<longrightarrow> bad (f_sub ar x y)"
    and a4: "\<forall>x. bad x \<longrightarrow> bad (f_sqrt ar x)"
    by blast+
  let ?qc = "ls_Q t ! nat c" and ?qp = "ls_Q t ! nat p"
  from i b have i': "i < length ?qc" "i < length ?qp" "i < length (matvec A ?qc)"
    "bad (matvec A ?qc ! i)"
    by (simp_all add: pos)
  have v2: "i < length (lanczos_partial ar A t) \<and> bad (lanczos_partial ar A t ! i)"
    unfolding lanczos_partial_def pos prod.case
    by (rule vsub_scaled_absorbed [OF a3 i'(3,2,4)])
  then show c: "bad (lanczos_coeff ar A t)"
    unfolding lanczos_coeff_def pos prod.case
    by (intro dot_absorbed [OF a1 a2 i'(1)]) simp_all
  assume "orth \<le> 0"
  then have r: "lanczos_residual ar ov A orth t =
      vsub_scaled ar (lanczos_partial ar A t) (lanczos_coeff ar A t) ?qc"
    by (simp add: lanczos_residual_def pos)
  have "i < length (lanczos_residual ar ov A orth t) \<and> bad (lanczos_residual ar ov A orth t ! i)"
    unfolding r using v2 by (intro vsub_scaled_absorbed [OF a3 _ i'(1)]) simp_all
  then show "bad (norm_v ar (lanczos_residual ar ov A orth t))"
    using norm_v_absorbed [OF a1 a2 a4] by blast
qed

lemma xr_nonfinite_absorbing:
  "\<forall>x y. x_nonfinite x \<longrightarrow> x_nonfinite (f_add xr x y) \<and> x_nonfinite (f_add xr y x)
      \<and> x_nonfinite (f_sub xr x y) \<and> x_nonfinite (f_mul xr y x) \<and> x_nonfinite (f_sqrt xr x)"
proof (intro allI impI)
  fix x y
  assume "x_nonfinite x"
  then show "x_nonfinite (f_add xr x y) \<and> x_nonfinite (f_add xr y x)
      \<and> x_nonfinite (f_sub xr x y) \<and> x_nonfinite (f_mul xr y x) \<and> x_nonfinite (f_sqrt xr x)"
    by (cases x; cases y) (simp_all add: xr_def x_sub_def x_inf_def)
qed

section \<open>The driver, thread by thread\<close>

lemma slq_exec_thread:
  assumes "\<forall>e\<in>set sched. fst e < length ws"
  shows "slq_exec step sched ws = Inr ws' \<longleftrightarrow>
     length ws' = length ws
     \<and> (\<forall>t<length ws. slq_thread step (thread_iterations t sched) (ws ! t) = Inr (ws' ! t))"
  using assms
proof (induction sched arbitrary: ws)
  case Nil
  show ?case
    by (auto simp: thread_iterations_def intro: nth_equalityI)
next
  case (Cons e sched)
  obtain tid i where e: "e = (tid, i)" by (cases e)
  from Cons.prems have tid: "tid < length ws" and rest: "\<forall>e\<in>set sched. fst e < length ws"
    by (auto simp: e)
  have it: "thread_iterations t (e # sched) =
      (if t = tid then i # thread_iterations t sched else thread_iterations t sched)" for t
    by (simp add: thread_iterations_def e)
  show ?case
  proof (cases "step i (ws ! tid)")
    case (Inl err)
    have "slq_thread step (thread_iterations tid (e # sched)) (ws ! tid) \<noteq> Inr (ws' ! tid)"
      by (simp add: it Inl)
    with tid have "\<not> (\<forall>t<length ws.
        slq_thread step (thread_iterations t (e # sched)) (ws ! t) = Inr (ws' ! t))"
      by blast
    then show ?thesis
      by (simp add: e Inl)
  next
    case (Inr w')
    have ih: "slq_exec step sched (ws[tid := w']) = Inr ws' \<longleftrightarrow>
        length ws' = length ws
        \<and> (\<forall>t<length ws. slq_thread step (thread_iterations t sched) ((ws[tid := w']) ! t)
              = Inr (ws' ! t))"
      using Cons.IH [of "ws[tid := w']"] rest by simp
    show ?thesis
      unfolding e slq_exec.simps Inr ebind_Inr ih
      using tid Inr by (auto simp: it thread_iterations_def nth_list_update)
  qed
qed

lemma slq_iteration_Inr:
  assumes "slq_iteration ar ov es rng A k rtol orth ncv i w = Inr w'"
  shows "\<exists>q r' sf nodes' weights'.
      rbg_draw rng (w_stream w) (snd (shape A)) = (q, r')
      \<and> lanczos_recurrence ar ov A q k rtol orth (w_alpha w) (w_beta w) (w_Q w) (nat ncv) = Inr sf
      \<and> lanczos_quadrature ar es (ls_alpha sf) (ls_beta sf) k (w_nodes w) (w_weights w) =
          Inr (nodes', weights')
      \<and> w' = w\<lparr>w_stream := r', w_q := ls_v sf, w_Q := ls_Q sf,
                w_alpha := ls_alpha sf, w_beta := ls_beta sf,
                w_nodes := nodes', w_weights := weights',
                w_calls := w_calls w @
                  [\<lparr>c_i = int i, c_q = ls_v sf, c_Q = ls_Q sf, c_nodes = nodes',
                    c_weights = weights', c_alpha = ls_alpha sf, c_beta = ls_beta sf\<rparr>]\<rparr>"
  using assms
  by (auto simp: slq_iteration_def ebind_eq_Inr split: prod.splits)

lemma slq_iteration_total:
  assumes "shape A = (n, n)" "length q = n" "length (w_Q w) = nat ncv"
    "list_all (\<lambda>c. length c = n) (w_Q w)" "2 \<le> ncv" "1 \<le> k"
    "nat k \<le> length (w_alpha w)" "nat k + 1 \<le> length (w_beta w)"
    "nat k \<le> length (w_nodes w)" "nat k \<le> length (w_weights w)"
    and es: "\<forall>a b. length (fst (es a b)) = length a
               \<and> list_all (\<lambda>r. length r = length a) (snd (es a b))"
    and d: "rbg_draw rng (w_stream w) (snd (shape A)) = (q, r')"
  shows "\<exists>w'. slq_iteration ar ov es rng A k rtol orth ncv i w = Inr w'"
proof -
  have ncv: "2 \<le> nat ncv" using assms(5) by simp
  from lanczos_recurrence_total [OF assms(1,2,3,4) ncv assms(7,8)]
  obtain sf where r: "lanczos_recurrence ar ov A q k rtol orth (w_alpha w) (w_beta w) (w_Q w)
      (nat ncv) = Inr sf"
    by blast
  note l = lanczos_recurrence_lengths [OF r assms(6)]
  obtain theta S where e: "es (take (nat k) (ls_alpha sf)) (take (nat k - 1) (drop 1 (ls_beta sf)))
      = (theta, S)"
    by (cases "es (take (nat k) (ls_alpha sf)) (take (nat k - 1) (drop 1 (ls_beta sf)))")
  from es [rule_format, of "take (nat k) (ls_alpha sf)" "take (nat k - 1) (drop 1 (ls_beta sf))",
      unfolded e]
  have lt: "length theta = nat k" and lS: "list_all (\<lambda>r. length r = nat k) S"
    using assms(7) by (simp_all add: l)
  have l0: "length (case S of [] \<Rightarrow> [] | r # rs \<Rightarrow> r) \<le> nat k"
    using lS by (cases S) simp_all
  from e have e': "es (take (nat k) (ls_alpha sf)) (take (nat k - Suc 0) (drop (Suc 0) (ls_beta sf)))
      = (theta, S)"
    by simp
  have "\<exists>nw. lanczos_quadrature ar es (ls_alpha sf) (ls_beta sf) k (w_nodes w) (w_weights w) = Inr nw"
    using assms(6-10) l lt l0
    by (simp add: lanczos_quadrature_def e' copy_to_def Let_def)
  then show ?thesis
    by (auto simp: slq_iteration_def d r)
qed

text \<open>
  Two runs in which every thread is given the same indices in the same order end with
  the same workers, however the threads interleave: what a worker computes is what it
  computes alone on its own indices.
\<close>

lemma slq_thread_local:
  assumes "slq ar ov es A nv rng lanczos_degree lanczos_rtol orth ncv num_threads seed X =
      Some (Inr ws)"
    and "chunk_size nv num_threads = Inr chunk"
    and "dynamic_schedule (nat num_threads) (nat nv) chunk Y"
    and "\<forall>t<nat num_threads. thread_iterations t X = thread_iterations t Y"
  shows "slq ar ov es A nv rng lanczos_degree lanczos_rtol orth ncv num_threads seed Y =
      Some (Inr ws)"
proof -
  let ?step = "slq_iteration ar ov es rng A lanczos_degree lanczos_rtol orth ncv"
  let ?ws = "map (\<lambda>tid. slq_alloc ar A lanczos_degree ncv (rbg_initialize rng num_threads seed tid))
          [0..<nat num_threads]"
  have l: "length ?ws = nat num_threads" by simp
  from assms(1,2) have dx: "dynamic_schedule (nat num_threads) (nat nv) chunk X"
    and x: "slq_exec ?step X ?ws = Inr ws"
    by (simp_all add: slq_def slq_run_def split: if_splits)
  have tx: "\<forall>e\<in>set X. fst e < nat num_threads" and ty: "\<forall>e\<in>set Y. fst e < nat num_threads"
    using dx assms(3) by (simp_all add: dynamic_schedule_def list_all_iff)
  note cx = slq_exec_thread [of X ?ws ?step ws, unfolded l, OF tx]
  note cy = slq_exec_thread [of Y ?ws ?step ws, unfolded l, OF ty]
  from x cx have c: "length ws = nat num_threads"
    "\<forall>t<nat num_threads. slq_thread ?step (thread_iterations t X) (?ws ! t) = Inr (ws ! t)"
    by blast+
  with assms(4) have "slq_exec ?step Y ?ws = Inr ws"
    unfolding cy by simp
  with assms(2,3) show ?thesis
    by (simp add: slq_def slq_run_def)
qed

section \<open>Evaluation on the concrete inputs\<close>

text \<open>The equations that evaluate the code on the concrete inputs.\<close>

lemmas run_defs = dot_def squaredNorm_def norm_v_def vdiv_def normalized_def vsub_scaled_def
  xr_def x_sub_def x_inf_def dense_operator_def rd_def wr_def col_def set_col_def mod_int_def
  Let_def eval_nat_numeral lanczos_body_def lanczos_init_def A4_def A1_def probe_a_def
  probe_b_def zeros_def ov_id_def

text \<open>The equations that evaluate the driver on the concrete inputs.\<close>

lemmas slq_defs = slq_def slq_run_def dynamic_schedule_def chunk_size_def c_div_def
  thread_iterations_def
  slq_iteration_def slq_alloc_def lanczos_quadrature_def copy_to_def
  es_diag_def tape_rbg_def tape_seq_def tape_par_def lanczos_recurrence_def lanczos_loop.simps
  residual_tol_def calls_of_def call_for_def

section \<open>The scratch buffers of a worker\<close>

text \<open>
  Claim C1 fails on the code.  A worker allocates \<^verbatim>\<open>alpha\<close> and \<^verbatim>\<open>beta\<close> with
  \<open>lanczos_degree\<close> entries each (lines 156 and 157), and the last step of the
  recurrence writes \<open>beta[lanczos_degree]\<close> (line 56).  With \<open>lanczos_degree = 2\<close> the
  probe \<open>(1,1,1,1)\<close> does not stop at step 0 (\<open>beta[1] = 2\<close>, the threshold is 1), and
  step 1 writes \<open>beta[2]\<close> outside the two entries allocated.
\<close>

theorem slq_beta_overrun:
  "length (w_alpha (slq_alloc ar A lanczos_degree ncv r)) = nat lanczos_degree
   \<and> length (w_beta (slq_alloc ar A lanczos_degree ncv r)) = nat lanczos_degree
   \<and> w_beta (slq_alloc xr A4 2 2 (tape_seq 0)) = [Fin 0, Fin 0]
   \<and> slq xr ov_id es_diag A4 1 (tape_rbg tape_seq) 2 (Fin (1 / 2)) 0 2 1 0 [(0, 0)] =
      Some (Inl OutOfBounds)"
proof -
  have "length (w_alpha (slq_alloc ar A lanczos_degree ncv r)) = nat lanczos_degree"
    "length (w_beta (slq_alloc ar A lanczos_degree ncv r)) = nat lanczos_degree"
    by (simp_all add: slq_alloc_def)
  moreover have "w_beta (slq_alloc xr A4 2 2 (tape_seq 0)) = [Fin 0, Fin 0]"
    by (simp add: slq_alloc_def xr_def eval_nat_numeral)
  moreover have "slq xr ov_id es_diag A4 1 (tape_rbg tape_seq) 2 (Fin (1 / 2)) 0 2 1 0 [(0, 0)] =
      Some (Inl OutOfBounds)"
    by (simp add: slq_defs run_defs)
  ultimately show ?thesis by blast
qed

text \<open>
  Claim C4 fails on the code.  The buffers are zeroed once, when the worker allocates
  them, and not between the probes it runs.  Below, one thread runs the probe
  \<open>(1,1,1,1)\<close>, which stops at step 1 and leaves \<open>alpha = (4, 4, 0)\<close>, and then the
  probe \<open>(1,-1,1,-1)\<close>, which stops at step 0: at the second call of \<^verbatim>\<open>f\<close> the entry
  \<open>alpha[1] = 4\<close> of the first probe is still there and is among the nodes.  On zeroed
  buffers the second probe gives \<open>alpha = (0, 0, 0)\<close>.
\<close>

theorem slq_stale_alpha:
  "map (\<lambda>c. (c_i c, c_alpha c, c_beta c, c_nodes c))
        (calls_of (slq xr ov_id es_diag A4 2 (tape_rbg tape_seq) 3 (Fin (1 / 2)) 0 2 1 0
           [(0, 0), (0, 1)])) =
      [(0, [Fin 4, Fin 4, Fin 0], [Fin 0, Fin 2, Fin 0], [Fin 4, Fin 4, Fin 0]),
       (1, [Fin 0, Fin 4, Fin 0], [Fin 0, Fin 0, Fin 0], [Fin 0, Fin 4, Fin 0])]
   \<and> map_sum id (\<lambda>s. (ls_alpha s, ls_beta s))
        (lanczos_recurrence xr ov_id A4 probe_b 3 (Fin (1 / 2)) 0 (zeros 3) (zeros 3)
           [zeros 4, zeros 4] 2) =
      Inr ([Fin 0, Fin 0, Fin 0], [Fin 0, Fin 0, Fin 0])"
proof -
  have "map (\<lambda>c. (c_i c, c_alpha c, c_beta c, c_nodes c))
        (calls_of (slq xr ov_id es_diag A4 2 (tape_rbg tape_seq) 3 (Fin (1 / 2)) 0 2 1 0
           [(0, 0), (0, 1)])) =
      [(0, [Fin 4, Fin 4, Fin 0], [Fin 0, Fin 2, Fin 0], [Fin 4, Fin 4, Fin 0]),
       (1, [Fin 0, Fin 4, Fin 0], [Fin 0, Fin 0, Fin 0], [Fin 0, Fin 4, Fin 0])]"
    by (simp add: slq_defs run_defs)
  moreover have "map_sum id (\<lambda>s. (ls_alpha s, ls_beta s))
        (lanczos_recurrence xr ov_id A4 probe_b 3 (Fin (1 / 2)) 0 (zeros 3) (zeros 3)
           [zeros 4, zeros 4] 2) =
      Inr ([Fin 0, Fin 0, Fin 0], [Fin 0, Fin 0, Fin 0])"
    by (simp add: slq_defs run_defs)
  ultimately show ?thesis by blast
qed

section \<open>Runs of the driver under different schedules\<close>

text \<open>
  Claim C2 fails on the code.  The parameter \<^verbatim>\<open>seed\<close> of \<^verbatim>\<open>slq\<close> is documented as
  \<^verbatim>\<open>Seed for random number generator for determinism\<close> (line 122).  But the probe
  for the index \<open>i\<close> is drawn from the sub-stream of the thread that runs \<open>i\<close>
  (line 167), and \<^verbatim>\<open>schedule(dynamic, chunk_size)\<close> leaves it to the run which thread
  that is.  With
  two probes and two threads the chunks have one index each, and both assignments below
  are schedules of the loop.  The two runs have the same operator, sample count,
  degree, tolerance, generator, seed and number of threads.  Index 0 is run by thread 0
  in the first and by thread 1 in the second, so its probe is drawn from another
  sub-stream, and \<^verbatim>\<open>alpha\<close>, \<^verbatim>\<open>beta\<close> and the nodes of the call \<^verbatim>\<open>f(0, ...)\<close> differ.
\<close>

theorem slq_schedule_dependent:
  "chunk_size 2 2 = Inr 1
   \<and> dynamic_schedule 2 2 1 [(0, 0), (1, 1)]
   \<and> dynamic_schedule 2 2 1 [(1, 0), (0, 1)]
   \<and> map_option (\<lambda>c. (c_alpha c, c_beta c, c_nodes c))
        (call_for 0 (calls_of
           (slq xr ov_id es_diag A4 2 (tape_rbg tape_par) 3 (Fin (1 / 2)) 0 2 2 0 [(0, 0), (1, 1)]))) =
      Some ([Fin 4, Fin 4, Fin 0], [Fin 0, Fin 2, Fin 0], [Fin 4, Fin 4, Fin 0])
   \<and> map_option (\<lambda>c. (c_alpha c, c_beta c, c_nodes c))
        (call_for 0 (calls_of
           (slq xr ov_id es_diag A4 2 (tape_rbg tape_par) 3 (Fin (1 / 2)) 0 2 2 0 [(1, 0), (0, 1)]))) =
      Some ([Fin 0, Fin 0, Fin 0], [Fin 0, Fin 0, Fin 0], [Fin 0, Fin 0, Fin 0])"
proof -
  have "chunk_size 2 2 = Inr 1"
    by (simp add: chunk_size_def c_div_def eval_nat_numeral)
  moreover have "dynamic_schedule 2 2 1 [(0, 0), (1, 1)]"
    "dynamic_schedule 2 2 1 [(1, 0), (0, 1)]"
    by (simp_all add: dynamic_schedule_def thread_iterations_def eval_nat_numeral)
  moreover have "map_option (\<lambda>c. (c_alpha c, c_beta c, c_nodes c))
        (call_for 0 (calls_of
           (slq xr ov_id es_diag A4 2 (tape_rbg tape_par) 3 (Fin (1 / 2)) 0 2 2 0 [(0, 0), (1, 1)]))) =
      Some ([Fin 4, Fin 4, Fin 0], [Fin 0, Fin 2, Fin 0], [Fin 4, Fin 4, Fin 0])"
    by (simp add: slq_defs run_defs)
  moreover have "map_option (\<lambda>c. (c_alpha c, c_beta c, c_nodes c))
        (call_for 0 (calls_of
           (slq xr ov_id es_diag A4 2 (tape_rbg tape_par) 3 (Fin (1 / 2)) 0 2 2 0 [(1, 0), (0, 1)]))) =
      Some ([Fin 0, Fin 0, Fin 0], [Fin 0, Fin 0, Fin 0], [Fin 0, Fin 0, Fin 0])"
    by (simp add: slq_defs run_defs)
  ultimately show ?thesis by blast
qed

section \<open>What the callback receives as q\<close>

text \<open>
  Claim C3, as amended.  \<^verbatim>\<open>lanczos_recurrence\<close> uses the buffer \<^verbatim>\<open>q\<close> as its working
  vector \<^verbatim>\<open>v\<close> (line 34) and copies the normalised probe to column 0 of \<^verbatim>\<open>Q\<close>
  (line 35).  For every probe whose iteration stays inside the buffers of the worker,
  the buffer \<^verbatim>\<open>q\<close> passed to \<^verbatim>\<open>f\<close> holds the residual left by the step \<open>j*\<close> at which
  the recurrence stopped, the vector whose norm is the last entry \<open>beta[j*+1]\<close> written;
  the normalised probe is column 0 of the \<^verbatim>\<open>Q\<close> passed to \<^verbatim>\<open>f\<close>, as long as
  \<open>j* < ncv\<close>, so that no step has reused that column.  When the buffers have the sizes
  the recurrence needs (\<open>k\<close> entries of \<^verbatim>\<open>alpha\<close>, \<open>k + 1\<close> of \<^verbatim>\<open>beta\<close>, \<open>ncv \<ge> 2\<close>
  columns of length \<open>n\<close>, \<open>k\<close> entries of \<^verbatim>\<open>nodes\<close> and \<^verbatim>\<open>weights\<close>, a solver that
  returns \<open>k\<close> eigenvalues and a \<open>k \<times> k\<close> matrix) this is every probe: the iteration
  returns and calls \<^verbatim>\<open>f\<close>.
\<close>

theorem slq_callback_q:
  assumes "1 \<le> k" and "rbg_draw rng (w_stream w) (snd (shape A)) = (q, r')"
  shows "(\<forall>w'. slq_iteration ar ov es rng A k rtol orth ncv i w = Inr w' \<longrightarrow>
          (\<exists>sf t c.
             lanczos_recurrence ar ov A q k rtol orth (w_alpha w) (w_beta w) (w_Q w) (nat ncv)
               = Inr sf
             \<and> lanczos_state_at ar ov A k (residual_tol ar A rtol) orth (nat ncv) (nat (ls_j sf))
                 (lanczos_entry ar q (w_alpha w) (w_beta w) (w_Q w) (nat ncv)) = Some t
             \<and> w_calls w' = w_calls w @ [c] \<and> c_i c = int i
             \<and> c_q c = w_q w' \<and> c_Q c = ls_Q sf \<and> c_beta c = ls_beta sf
             \<and> c_q c = lanczos_residual ar ov A orth t
             \<and> c_beta c ! (nat (ls_j sf) + 1) = norm_v ar (c_q c)
             \<and> (2 \<le> ncv \<and> ls_j sf < ncv \<longrightarrow> c_Q c ! 0 = normalized ar q)
             \<and> (length (w_beta w) = nat k \<longrightarrow> ls_j sf + 1 < k)))
     \<and> (shape A = (n, n) \<and> length q = n \<and> length (w_Q w) = nat ncv
        \<and> list_all (\<lambda>c. length c = n) (w_Q w) \<and> 2 \<le> ncv
        \<and> nat k \<le> length (w_alpha w) \<and> nat k + 1 \<le> length (w_beta w)
        \<and> nat k \<le> length (w_nodes w) \<and> nat k \<le> length (w_weights w)
        \<and> (\<forall>a b. length (fst (es a b)) = length a
                 \<and> list_all (\<lambda>r. length r = length a) (snd (es a b)))
        \<longrightarrow> (\<exists>w'. slq_iteration ar ov es rng A k rtol orth ncv i w = Inr w'))"
proof (intro conjI allI impI)
  fix w'
  assume it: "slq_iteration ar ov es rng A k rtol orth ncv i w = Inr w'"
  from slq_iteration_Inr [OF it] assms(2) obtain sf nodes' weights'
    where r: "lanczos_recurrence ar ov A q k rtol orth (w_alpha w) (w_beta w) (w_Q w) (nat ncv)
                = Inr sf"
      and w': "w' = w\<lparr>w_stream := r', w_q := ls_v sf, w_Q := ls_Q sf,
                w_alpha := ls_alpha sf, w_beta := ls_beta sf,
                w_nodes := nodes', w_weights := weights',
                w_calls := w_calls w @
                  [\<lparr>c_i = int i, c_q = ls_v sf, c_Q = ls_Q sf, c_nodes = nodes',
                    c_weights = weights', c_alpha = ls_alpha sf, c_beta = ls_beta sf\<rparr>]\<rparr>"
    by auto
  let ?c = "\<lparr>c_i = int i, c_q = ls_v sf, c_Q = ls_Q sf, c_nodes = nodes',
                    c_weights = weights', c_alpha = ls_alpha sf, c_beta = ls_beta sf\<rparr>"
  from lanczos_recurrence_residual [OF r assms(1)] obtain t
    where t: "lanczos_state_at ar ov A k (residual_tol ar A rtol) orth (nat ncv) (nat (ls_j sf))
          (lanczos_entry ar q (w_alpha w) (w_beta w) (w_Q w) (nat ncv)) = Some t"
      and v: "ls_v sf = lanczos_residual ar ov A orth t"
      and n: "ls_beta sf ! (nat (ls_j sf) + 1) = norm_v ar (lanczos_residual ar ov A orth t)"
    by blast
  have q0: "c_Q ?c ! 0 = normalized ar q" if "2 \<le> ncv \<and> ls_j sf < ncv"
  proof -
    from that have "2 \<le> nat ncv" "ls_j sf < int (nat ncv)" by linarith+
    from lanczos_recurrence_first_column [OF r assms(1) this] show ?thesis by simp
  qed
  have "w_calls w' = w_calls w @ [?c] \<and> c_i ?c = int i
      \<and> c_q ?c = w_q w' \<and> c_Q ?c = ls_Q sf \<and> c_beta ?c = ls_beta sf
      \<and> c_q ?c = lanczos_residual ar ov A orth t
      \<and> c_beta ?c ! (nat (ls_j sf) + 1) = norm_v ar (c_q ?c)
      \<and> (2 \<le> ncv \<and> ls_j sf < ncv \<longrightarrow> c_Q ?c ! 0 = normalized ar q)
      \<and> (length (w_beta w) = nat k \<longrightarrow> ls_j sf + 1 < k)"
    using v n q0 lanczos_recurrence_short_beta [OF r assms(1)] by (simp add: w')
  with r t show "\<exists>sf t c.
             lanczos_recurrence ar ov A q k rtol orth (w_alpha w) (w_beta w) (w_Q w) (nat ncv)
               = Inr sf
             \<and> lanczos_state_at ar ov A k (residual_tol ar A rtol) orth (nat ncv) (nat (ls_j sf))
                 (lanczos_entry ar q (w_alpha w) (w_beta w) (w_Q w) (nat ncv)) = Some t
             \<and> w_calls w' = w_calls w @ [c] \<and> c_i c = int i
             \<and> c_q c = w_q w' \<and> c_Q c = ls_Q sf \<and> c_beta c = ls_beta sf
             \<and> c_q c = lanczos_residual ar ov A orth t
             \<and> c_beta c ! (nat (ls_j sf) + 1) = norm_v ar (c_q c)
             \<and> (2 \<le> ncv \<and> ls_j sf < ncv \<longrightarrow> c_Q c ! 0 = normalized ar q)
             \<and> (length (w_beta w) = nat k \<longrightarrow> ls_j sf + 1 < k)"
    by blast
next
  assume h: "shape A = (n, n) \<and> length q = n \<and> length (w_Q w) = nat ncv
        \<and> list_all (\<lambda>c. length c = n) (w_Q w) \<and> 2 \<le> ncv
        \<and> nat k \<le> length (w_alpha w) \<and> nat k + 1 \<le> length (w_beta w)
        \<and> nat k \<le> length (w_nodes w) \<and> nat k \<le> length (w_weights w)
        \<and> (\<forall>a b. length (fst (es a b)) = length a
                 \<and> list_all (\<lambda>r. length r = length a) (snd (es a b)))"
  show "\<exists>w'. slq_iteration ar ov es rng A k rtol orth ncv i w = Inr w'"
    by (rule slq_iteration_total [where n = n and q = q and r' = r']) (use h assms in simp_all)
qed

theorem slq_callback_q_witness:
  "(1::int) \<le> 2
   \<and> rbg_draw (tape_rbg tape_seq) (w_stream worker_beta3) (snd (shape A4)) =
       (probe_a, [probe_b, probe_a])
   \<and> shape A4 = (4, 4) \<and> length probe_a = 4 \<and> length (w_Q worker_beta3) = nat 2
   \<and> list_all (\<lambda>c. length c = 4) (w_Q worker_beta3) \<and> (2::int) \<le> 2
   \<and> nat 2 \<le> length (w_alpha worker_beta3) \<and> nat 2 + 1 \<le> length (w_beta worker_beta3)
   \<and> nat 2 \<le> length (w_nodes worker_beta3) \<and> nat 2 \<le> length (w_weights worker_beta3)
   \<and> slq_iteration xr ov_id es_diag (tape_rbg tape_seq) A4 2 (Fin 2) 0 2 0 worker_beta3 =
      Inr \<lparr>w_stream = [probe_b, probe_a],
            w_q = [Fin 1, Fin 1, Fin (- 1), Fin (- 1)],
            w_Q = [[Fin (1 / 2), Fin (1 / 2), Fin (1 / 2), Fin (1 / 2)], zeros 4],
            w_alpha = [Fin 4, Fin 0], w_beta = [Fin 0, Fin 2, Fin 0],
            w_nodes = [Fin 4, Fin 0], w_weights = [Fin 1, Fin 0],
            w_calls = [\<lparr>c_i = 0, c_q = [Fin 1, Fin 1, Fin (- 1), Fin (- 1)],
                         c_Q = [[Fin (1 / 2), Fin (1 / 2), Fin (1 / 2), Fin (1 / 2)], zeros 4],
                         c_nodes = [Fin 4, Fin 0], c_weights = [Fin 1, Fin 0],
                         c_alpha = [Fin 4, Fin 0], c_beta = [Fin 0, Fin 2, Fin 0]\<rparr>]\<rparr>
   \<and> [Fin 1, Fin 1, Fin (- 1), Fin (- 1)] =
       lanczos_residual xr ov_id A4 0
         (lanczos_entry xr probe_a (w_alpha worker_beta3) (w_beta worker_beta3)
            (w_Q worker_beta3) (nat 2))
   \<and> [Fin 0, Fin 2, Fin 0] ! 1 = norm_v xr [Fin 1, Fin 1, Fin (- 1), Fin (- 1)]
   \<and> [[Fin (1 / 2), Fin (1 / 2), Fin (1 / 2), Fin (1 / 2)], zeros 4] ! 0 = normalized xr probe_a
   \<and> (1::int) \<le> 3
   \<and> rbg_draw (tape_rbg tape_seq) (w_stream (slq_alloc xr A4 3 2 (tape_seq 0))) (snd (shape A4)) =
       (probe_a, [probe_b, probe_a])
   \<and> length (w_beta (slq_alloc xr A4 3 2 (tape_seq 0))) = nat 3
   \<and> map_sum id (\<lambda>w. map (\<lambda>c. (c_i c, c_q c, c_beta c)) (w_calls w))
        (slq_iteration xr ov_id es_diag (tape_rbg tape_seq) A4 3 (Fin (1 / 2)) 0 2 0
           (slq_alloc xr A4 3 2 (tape_seq 0))) =
      Inr [(0, zeros 4, [Fin 0, Fin 2, Fin 0])]
   \<and> map_sum id ls_j
        (lanczos_recurrence xr ov_id A4 probe_a 3 (Fin (1 / 2)) 0
           (w_alpha (slq_alloc xr A4 3 2 (tape_seq 0))) (w_beta (slq_alloc xr A4 3 2 (tape_seq 0)))
           (w_Q (slq_alloc xr A4 3 2 (tape_seq 0))) (nat 2)) = Inr 1
   \<and> (1::int) + 1 < 3"
proof -
  let ?w' = "\<lparr>w_stream = [probe_b, probe_a],
            w_q = [Fin 1, Fin 1, Fin (- 1), Fin (- 1)],
            w_Q = [[Fin (1 / 2), Fin (1 / 2), Fin (1 / 2), Fin (1 / 2)], zeros 4],
            w_alpha = [Fin 4, Fin 0], w_beta = [Fin 0, Fin 2, Fin 0],
            w_nodes = [Fin 4, Fin 0], w_weights = [Fin 1, Fin 0],
            w_calls = [\<lparr>c_i = 0, c_q = [Fin 1, Fin 1, Fin (- 1), Fin (- 1)],
                         c_Q = [[Fin (1 / 2), Fin (1 / 2), Fin (1 / 2), Fin (1 / 2)], zeros 4],
                         c_nodes = [Fin 4, Fin 0], c_weights = [Fin 1, Fin 0],
                         c_alpha = [Fin 4, Fin 0], c_beta = [Fin 0, Fin 2, Fin 0]\<rparr>]\<rparr>"
  have k: "(1::int) \<le> 2" by simp
  have d: "rbg_draw (tape_rbg tape_seq) (w_stream worker_beta3) (snd (shape A4)) =
       (probe_a, [probe_b, probe_a])"
    by (simp add: worker_beta3_def slq_defs)
  have h: "shape A4 = (4, 4) \<and> length probe_a = 4 \<and> length (w_Q worker_beta3) = nat 2
   \<and> list_all (\<lambda>c. length c = 4) (w_Q worker_beta3) \<and> (2::int) \<le> 2
   \<and> nat 2 \<le> length (w_alpha worker_beta3) \<and> nat 2 + 1 \<le> length (w_beta worker_beta3)
   \<and> nat 2 \<le> length (w_nodes worker_beta3) \<and> nat 2 \<le> length (w_weights worker_beta3)"
    by (simp add: worker_beta3_def slq_alloc_def A4_def dense_operator_def probe_a_def zeros_def
        eval_nat_numeral)
  have s: "\<forall>a b. length (fst (es_diag a b)) = length a
                 \<and> list_all (\<lambda>r. length r = length a) (snd (es_diag a b))"
    by (simp add: es_diag_def list_all_iff)
  have e: "slq_iteration xr ov_id es_diag (tape_rbg tape_seq) A4 2 (Fin 2) 0 2 0 worker_beta3 =
      Inr ?w'"
    by (simp add: worker_beta3_def slq_defs run_defs)
  have r: "lanczos_recurrence xr ov_id A4 probe_a 2 (Fin 2) 0 (w_alpha worker_beta3)
        (w_beta worker_beta3) (w_Q worker_beta3) (nat 2) =
      Inr \<lparr>ls_j = 0, ls_pos = (1, 0, 1), ls_alpha = [Fin 4, Fin 0],
            ls_beta = [Fin 0, Fin 2, Fin 0],
            ls_Q = [[Fin (1 / 2), Fin (1 / 2), Fin (1 / 2), Fin (1 / 2)], zeros 4],
            ls_v = [Fin 1, Fin 1, Fin (- 1), Fin (- 1)]\<rparr>"
    by (simp add: worker_beta3_def slq_defs run_defs)
  note th = slq_callback_q [OF k d, where ar = xr and ov = ov_id and es = es_diag
      and rtol = "Fin 2" and orth = 0 and ncv = 2 and i = 0 and n = 4]
  from th h s have "\<exists>w'. slq_iteration xr ov_id es_diag (tape_rbg tape_seq) A4 2 (Fin 2) 0 2 0
      worker_beta3 = Inr w'"
    by blast
  from th [THEN conjunct1, rule_format, OF e] obtain sf t c
    where a: "lanczos_recurrence xr ov_id A4 probe_a 2 (Fin 2) 0 (w_alpha worker_beta3)
        (w_beta worker_beta3) (w_Q worker_beta3) (nat 2) = Inr sf"
      and t: "lanczos_state_at xr ov_id A4 2 (residual_tol xr A4 (Fin 2)) 0 (nat 2) (nat (ls_j sf))
                 (lanczos_entry xr probe_a (w_alpha worker_beta3) (w_beta worker_beta3)
                    (w_Q worker_beta3) (nat 2)) = Some t"
      and c: "w_calls ?w' = w_calls worker_beta3 @ [c]" "c_q c = w_q ?w'" "c_Q c = ls_Q sf"
        "c_beta c = ls_beta sf"
        "c_q c = lanczos_residual xr ov_id A4 0 t"
        "c_beta c ! (nat (ls_j sf) + 1) = norm_v xr (c_q c)"
        "(2::int) \<le> 2 \<and> ls_j sf < 2 \<longrightarrow> c_Q c ! 0 = normalized xr probe_a"
    by blast
  from a r have sf: "sf = \<lparr>ls_j = 0, ls_pos = (1, 0, 1), ls_alpha = [Fin 4, Fin 0],
            ls_beta = [Fin 0, Fin 2, Fin 0],
            ls_Q = [[Fin (1 / 2), Fin (1 / 2), Fin (1 / 2), Fin (1 / 2)], zeros 4],
            ls_v = [Fin 1, Fin 1, Fin (- 1), Fin (- 1)]\<rparr>"
    by simp
  from t have t': "t = lanczos_entry xr probe_a (w_alpha worker_beta3) (w_beta worker_beta3)
                    (w_Q worker_beta3) (nat 2)"
    by (simp add: sf)
  from c [unfolded t'] have "[Fin 1, Fin 1, Fin (- 1), Fin (- 1)] =
       lanczos_residual xr ov_id A4 0
         (lanczos_entry xr probe_a (w_alpha worker_beta3) (w_beta worker_beta3)
            (w_Q worker_beta3) (nat 2))
   \<and> [Fin 0, Fin 2, Fin 0] ! 1 = norm_v xr [Fin 1, Fin 1, Fin (- 1), Fin (- 1)]
   \<and> [[Fin (1 / 2), Fin (1 / 2), Fin (1 / 2), Fin (1 / 2)], zeros 4] ! 0 = normalized xr probe_a"
    by (simp add: sf)
  note first = this
  let ?w0 = "slq_alloc xr A4 3 2 (tape_seq 0)"
  have k3: "(1::int) \<le> 3" by simp
  have d3: "rbg_draw (tape_rbg tape_seq) (w_stream ?w0) (snd (shape A4)) =
       (probe_a, [probe_b, probe_a])"
    by (simp add: slq_defs)
  have l3: "length (w_beta ?w0) = nat 3"
    by (simp add: slq_alloc_def)
  obtain w3 where e3: "slq_iteration xr ov_id es_diag (tape_rbg tape_seq) A4 3 (Fin (1 / 2)) 0 2 0
      ?w0 = Inr w3"
    and c3: "map (\<lambda>c. (c_i c, c_q c, c_beta c)) (w_calls w3) = [(0, zeros 4, [Fin 0, Fin 2, Fin 0])]"
    by (simp add: slq_defs run_defs)
  have r3: "map_sum id ls_j
        (lanczos_recurrence xr ov_id A4 probe_a 3 (Fin (1 / 2)) 0
           (w_alpha ?w0) (w_beta ?w0) (w_Q ?w0) (nat 2)) = Inr 1"
    by (simp add: slq_defs run_defs)
  from slq_callback_q [OF k3 d3, where ar = xr and ov = ov_id and es = es_diag
      and rtol = "Fin (1 / 2)" and orth = 0 and ncv = 2 and i = 0 and n = 4,
      THEN conjunct1, rule_format, OF e3] l3
  obtain sf3 where "lanczos_recurrence xr ov_id A4 probe_a 3 (Fin (1 / 2)) 0
           (w_alpha ?w0) (w_beta ?w0) (w_Q ?w0) (nat 2) = Inr sf3" "ls_j sf3 + 1 < 3"
    by blast
  with r3 have j3: "(1::int) + 1 < 3"
    by simp
  have "map_sum id (\<lambda>w. map (\<lambda>c. (c_i c, c_q c, c_beta c)) (w_calls w))
        (slq_iteration xr ov_id es_diag (tape_rbg tape_seq) A4 3 (Fin (1 / 2)) 0 2 0 ?w0) =
      Inr [(0, zeros 4, [Fin 0, Fin 2, Fin 0])]"
    by (simp add: e3 c3)
  with k d h e first k3 d3 l3 r3 j3 show ?thesis by blast
qed

text \<open>
  Claim C3 as the spec states it fails.  For the probe \<open>(1,1,1,1)\<close> the recurrence
  stops at step 1 with a zero residual: \<^verbatim>\<open>f\<close> receives \<open>q = (0,0,0,0)\<close>, while the
  normalised probe \<open>(1/2,1/2,1/2,1/2)\<close> is column 0 of \<^verbatim>\<open>Q\<close>.
\<close>

theorem slq_callback_q_not_probe:
  "map (\<lambda>c. (c_i c, c_q c, c_Q c ! 0))
        (calls_of (slq xr ov_id es_diag A4 1 (tape_rbg tape_seq) 3 (Fin (1 / 2)) 0 2 1 0 [(0, 0)])) =
      [(0, [Fin 0, Fin 0, Fin 0, Fin 0], [Fin (1 / 2), Fin (1 / 2), Fin (1 / 2), Fin (1 / 2)])]
   \<and> normalized xr probe_a = [Fin (1 / 2), Fin (1 / 2), Fin (1 / 2), Fin (1 / 2)]
   \<and> [Fin 0, Fin 0, Fin 0, Fin 0] \<noteq> [Fin (1 / 2), Fin (1 / 2), Fin (1 / 2), Fin (1 / 2)]"
  by (simp add: slq_defs run_defs)

section \<open>What a stopping step leaves untouched\<close>

text \<open>
  Claim C5, as amended.  When \<^verbatim>\<open>lanczos_recurrence\<close> stops at step \<open>j*\<close> (the early
  stop on \<open>beta[j*+1] < residual_tol\<close> and the stop at the last step alike), the entries
  \<open>alpha[j*+1..]\<close> and \<open>beta[j*+2..]\<close> are the ones the caller passed, and the matrix of
  basis vectors is the one the stopping step started with: its next column is not written.
  The entries \<open>alpha[j*]\<close> and \<open>beta[j*+1]\<close> are written by the stopping step itself,
  before it tests the threshold.
\<close>

theorem lanczos_stop_frame:
  assumes "lanczos_recurrence ar ov A q k rtol orth alpha beta V ncv = Inr sf" and "1 \<le> k"
  shows "0 \<le> ls_j sf \<and> ls_j sf < k
     \<and> length (ls_alpha sf) = length alpha \<and> length (ls_beta sf) = length beta
     \<and> (\<forall>i. nat (ls_j sf) < i \<longrightarrow> ls_alpha sf ! i = alpha ! i)
     \<and> (\<forall>i. nat (ls_j sf) + 1 < i \<longrightarrow> ls_beta sf ! i = beta ! i)
     \<and> (\<exists>t. lanczos_state_at ar ov A k (residual_tol ar A rtol) orth ncv (nat (ls_j sf))
                (lanczos_entry ar q alpha beta V ncv) = Some t
            \<and> lanczos_body ar ov A k (residual_tol ar A rtol) orth ncv t = Inr (Break sf)
            \<and> ls_Q sf = ls_Q t
            \<and> ls_alpha sf ! nat (ls_j sf) = lanczos_coeff ar A t
            \<and> ls_beta sf ! (nat (ls_j sf) + 1) = norm_v ar (lanczos_residual ar ov A orth t))"
proof -
  from lanczos_recurrence_stop [OF assms] obtain t
    where t: "lanczos_state_at ar ov A k (residual_tol ar A rtol) orth ncv (nat (ls_j sf))
               (lanczos_entry ar q alpha beta V ncv) = Some t"
      and b: "lanczos_body ar ov A k (residual_tol ar A rtol) orth ncv t = Inr (Break sf)"
      and j: "ls_j t = ls_j sf" "0 \<le> ls_j sf" "ls_j sf < k"
    by blast
  note fr = lanczos_state_at_frame [OF t, simplified lanczos_entry_simps, simplified]
  note st = lanczos_body_state [OF b, simplified, unfolded j(1)]
  have la: "length (ls_alpha sf) = length alpha" and lb: "length (ls_beta sf) = length beta"
    using fr st(2,3) by simp_all
  have a: "ls_alpha sf ! i = alpha ! i" if "nat (ls_j sf) < i" for i
    using that fr by (simp add: st(2))
  have be: "ls_beta sf ! i = beta ! i" if "nat (ls_j sf) + 1 < i" for i
    using that fr by (simp add: st(3))
  have w: "ls_alpha sf ! nat (ls_j sf) = lanczos_coeff ar A t"
    "ls_beta sf ! (nat (ls_j sf) + 1) = norm_v ar (lanczos_residual ar ov A orth t)"
    using st(7,8) fr by (simp_all add: st(2,3))
  from t b lanczos_body_Break(1) [OF b] w have
    "\<exists>t. lanczos_state_at ar ov A k (residual_tol ar A rtol) orth ncv (nat (ls_j sf))
                (lanczos_entry ar q alpha beta V ncv) = Some t
            \<and> lanczos_body ar ov A k (residual_tol ar A rtol) orth ncv t = Inr (Break sf)
            \<and> ls_Q sf = ls_Q t
            \<and> ls_alpha sf ! nat (ls_j sf) = lanczos_coeff ar A t
            \<and> ls_beta sf ! (nat (ls_j sf) + 1) = norm_v ar (lanczos_residual ar ov A orth t)"
    by blast
  with j(2,3) la lb a be show ?thesis
    by blast
qed

theorem lanczos_stop_frame_witness:
  "(1::int) \<le> 3
   \<and> lanczos_recurrence xr ov_id A4 probe_b 3 (Fin (1 / 2)) 0
        [Fin 7, Fin 7, Fin 7] [Fin 0, Fin 7, Fin 7, Fin 7] [zeros 4, zeros 4] 2 =
      Inr \<lparr>ls_j = 0, ls_pos = (1, 0, 1), ls_alpha = [Fin 0, Fin 7, Fin 7],
            ls_beta = [Fin 0, Fin 0, Fin 7, Fin 7],
            ls_Q = [[Fin (1 / 2), Fin (- (1 / 2)), Fin (1 / 2), Fin (- (1 / 2))],
                    [Fin 0, Fin 0, Fin 0, Fin 0]],
            ls_v = [Fin 0, Fin 0, Fin 0, Fin 0]\<rparr>
   \<and> [Fin 0, Fin 7, Fin 7] ! 1 = [Fin 7, Fin 7, Fin 7 :: xfloat] ! 1
   \<and> [Fin 0, Fin 0, Fin 7, Fin 7] ! 2 = [Fin 0, Fin 7, Fin 7, Fin 7 :: xfloat] ! 2"
proof -
  have k: "(1::int) \<le> 3" by simp
  have e: "lanczos_recurrence xr ov_id A4 probe_b 3 (Fin (1 / 2)) 0
        [Fin 7, Fin 7, Fin 7] [Fin 0, Fin 7, Fin 7, Fin 7] [zeros 4, zeros 4] 2 =
      Inr \<lparr>ls_j = 0, ls_pos = (1, 0, 1), ls_alpha = [Fin 0, Fin 7, Fin 7],
            ls_beta = [Fin 0, Fin 0, Fin 7, Fin 7],
            ls_Q = [[Fin (1 / 2), Fin (- (1 / 2)), Fin (1 / 2), Fin (- (1 / 2))],
                    [Fin 0, Fin 0, Fin 0, Fin 0]],
            ls_v = [Fin 0, Fin 0, Fin 0, Fin 0]\<rparr>"
    by (simp add: lanczos_recurrence_def lanczos_loop.simps run_defs)
  from lanczos_stop_frame [OF e k] e show ?thesis
    by simp
qed

text \<open>
  Claim C5 as the spec states it fails: the probe \<open>(1,-1,1,-1)\<close> is in the kernel of
  \<open>A4\<close>, the recurrence stops at step 0 on \<open>beta[1] = 0 < 1 = residual_tol\<close>, and
  \<open>alpha[0]\<close> and \<open>beta[1]\<close>, which held 7, hold 0.
\<close>

theorem lanczos_stop_overwrites:
  "lanczos_recurrence xr ov_id A4 probe_b 3 (Fin (1 / 2)) 0
        [Fin 7, Fin 7, Fin 7] [Fin 0, Fin 7, Fin 7, Fin 7] [zeros 4, zeros 4] 2 =
      Inr \<lparr>ls_j = 0, ls_pos = (1, 0, 1), ls_alpha = [Fin 0, Fin 7, Fin 7],
            ls_beta = [Fin 0, Fin 0, Fin 7, Fin 7],
            ls_Q = [[Fin (1 / 2), Fin (- (1 / 2)), Fin (1 / 2), Fin (- (1 / 2))],
                    [Fin 0, Fin 0, Fin 0, Fin 0]],
            ls_v = [Fin 0, Fin 0, Fin 0, Fin 0]\<rparr>
   \<and> residual_tol xr A4 (Fin (1 / 2)) = Fin 1
   \<and> x_less (Fin 0) (Fin 1)
   \<and> [Fin 0, Fin 7, Fin 7] ! 0 \<noteq> [Fin 7, Fin 7, Fin 7 :: xfloat] ! 0
   \<and> [Fin 0, Fin 0, Fin 7, Fin 7] ! 1 \<noteq> [Fin 0, Fin 7, Fin 7, Fin 7 :: xfloat] ! 1"
  by (simp add: lanczos_recurrence_def lanczos_loop.simps residual_tol_def run_defs)

section \<open>The order of the updates in a step\<close>

text \<open>
  Claim C6.  At every step \<open>j\<close> that \<^verbatim>\<open>lanczos_recurrence\<close> runs, from the state \<open>t\<close>
  the step starts in, \<open>alpha[j]\<close> is the inner product of the current column with
  \<open>A q\<^sub>c - beta[j] q\<^sub>p\<close>, the vector after the first update, and the vector the
  step leaves is that vector minus \<open>alpha[j] q\<^sub>c\<close>, re-orthogonalised when
  \<open>orth > 0\<close>.  The value of \<open>alpha[j]\<close> is the one the call returns: no later step
  writes it.
\<close>

theorem lanczos_alpha_order:
  assumes "lanczos_recurrence ar ov A q k rtol orth alpha beta V ncv = Inr sf"
    and "lanczos_state_at ar ov A k (residual_tol ar A rtol) orth ncv j
           (lanczos_entry ar q alpha beta V ncv) = Some t"
    and "int j < k"
    and "ls_pos t = (p, c, n)"
  shows "ls_alpha sf ! j =
           dot ar (ls_Q t ! nat c)
             (vsub_scaled ar (matvec A (ls_Q t ! nat c)) (ls_beta sf ! j) (ls_Q t ! nat p))
     \<and> (\<exists>r. lanczos_body ar ov A k (residual_tol ar A rtol) orth ncv t = Inr r
          \<and> ls_v (outcome_state r) =
              (let v3 = vsub_scaled ar
                          (vsub_scaled ar (matvec A (ls_Q t ! nat c)) (ls_beta sf ! j)
                             (ls_Q t ! nat p))
                          (ls_alpha sf ! j) (ls_Q t ! nat c)
               in if 0 < orth then ov v3 (ls_Q t) c orth True else v3))"
proof -
  have jt: "ls_j t = int j"
    using lanczos_state_at_frame [OF assms(2)] by (simp add: lanczos_entry_simps)
  have "lanczos_loop ar ov A k (residual_tol ar A rtol) orth ncv t = Inr sf"
    using lanczos_loop_state_at [OF assms(2)] lanczos_recurrence_Inr(1) [OF assms(1)] by simp
  from lanczos_loop_first [OF this] assms(3) obtain r
    where r: "lanczos_body ar ov A k (residual_tol ar A rtol) orth ncv t = Inr r"
      and a: "ls_alpha sf ! j = lanczos_coeff ar A t"
      and b: "ls_beta sf ! j = ls_beta t ! j"
    by (auto simp: jt)
  have c: "lanczos_coeff ar A t =
      dot ar (ls_Q t ! nat c)
        (vsub_scaled ar (matvec A (ls_Q t ! nat c)) (ls_beta sf ! j) (ls_Q t ! nat p))"
    by (simp add: lanczos_coeff_def lanczos_partial_def assms(4) jt b)
  have "ls_v (outcome_state r) =
      (let v3 = vsub_scaled ar
                  (vsub_scaled ar (matvec A (ls_Q t ! nat c)) (ls_beta sf ! j) (ls_Q t ! nat p))
                  (ls_alpha sf ! j) (ls_Q t ! nat c)
       in if 0 < orth then ov v3 (ls_Q t) c orth True else v3)"
    unfolding lanczos_body_state(4) [OF r] a
    by (simp add: lanczos_residual_def lanczos_partial_def assms(4) jt b Let_def)
  with r a c show ?thesis by auto
qed

theorem lanczos_alpha_order_witness:
  "lanczos_recurrence xr ov_id A4 probe_a 3 (Fin (1 / 2)) 0 (zeros 3) (zeros 3)
        [zeros 4, zeros 4] 2 =
      Inr \<lparr>ls_j = 1, ls_pos = (0, 1, 0), ls_alpha = [Fin 4, Fin 4, Fin 0],
            ls_beta = [Fin 0, Fin 2, Fin 0],
            ls_Q = [[Fin (1 / 2), Fin (1 / 2), Fin (1 / 2), Fin (1 / 2)],
                    [Fin (1 / 2), Fin (1 / 2), Fin (- (1 / 2)), Fin (- (1 / 2))]],
            ls_v = [Fin 0, Fin 0, Fin 0, Fin 0]\<rparr>
   \<and> lanczos_state_at xr ov_id A4 3 (residual_tol xr A4 (Fin (1 / 2))) 0 2 1
        (lanczos_entry xr probe_a (zeros 3) (zeros 3) [zeros 4, zeros 4] 2) =
      Some \<lparr>ls_j = 1, ls_pos = (0, 1, 0), ls_alpha = [Fin 4, Fin 0, Fin 0],
             ls_beta = [Fin 0, Fin 2, Fin 0],
             ls_Q = [[Fin (1 / 2), Fin (1 / 2), Fin (1 / 2), Fin (1 / 2)],
                     [Fin (1 / 2), Fin (1 / 2), Fin (- (1 / 2)), Fin (- (1 / 2))]],
             ls_v = [Fin 1, Fin 1, Fin (- 1), Fin (- 1)]\<rparr>
   \<and> int 1 < 3
   \<and> Fin 4 =
       dot xr [Fin (1 / 2), Fin (1 / 2), Fin (- (1 / 2)), Fin (- (1 / 2))]
         (vsub_scaled xr
            (matvec A4 [Fin (1 / 2), Fin (1 / 2), Fin (- (1 / 2)), Fin (- (1 / 2))])
            (Fin 2) [Fin (1 / 2), Fin (1 / 2), Fin (1 / 2), Fin (1 / 2)])"
proof -
  have e: "lanczos_recurrence xr ov_id A4 probe_a 3 (Fin (1 / 2)) 0 (zeros 3) (zeros 3)
        [zeros 4, zeros 4] 2 =
      Inr \<lparr>ls_j = 1, ls_pos = (0, 1, 0), ls_alpha = [Fin 4, Fin 4, Fin 0],
            ls_beta = [Fin 0, Fin 2, Fin 0],
            ls_Q = [[Fin (1 / 2), Fin (1 / 2), Fin (1 / 2), Fin (1 / 2)],
                    [Fin (1 / 2), Fin (1 / 2), Fin (- (1 / 2)), Fin (- (1 / 2))]],
            ls_v = [Fin 0, Fin 0, Fin 0, Fin 0]\<rparr>"
    by (simp add: lanczos_recurrence_def lanczos_loop.simps run_defs)
  have t: "lanczos_state_at xr ov_id A4 3 (residual_tol xr A4 (Fin (1 / 2))) 0 2 1
        (lanczos_entry xr probe_a (zeros 3) (zeros 3) [zeros 4, zeros 4] 2) =
      Some \<lparr>ls_j = 1, ls_pos = (0, 1, 0), ls_alpha = [Fin 4, Fin 0, Fin 0],
             ls_beta = [Fin 0, Fin 2, Fin 0],
             ls_Q = [[Fin (1 / 2), Fin (1 / 2), Fin (1 / 2), Fin (1 / 2)],
                     [Fin (1 / 2), Fin (1 / 2), Fin (- (1 / 2)), Fin (- (1 / 2))]],
             ls_v = [Fin 1, Fin 1, Fin (- 1), Fin (- 1)]\<rparr>"
    by (simp add: residual_tol_def lanczos_entry_def run_defs)
  have j: "int 1 < 3" by simp
  have p: "ls_pos \<lparr>ls_j = 1, ls_pos = (0, 1, 0), ls_alpha = [Fin 4, Fin 0, Fin 0],
             ls_beta = [Fin 0, Fin 2, Fin 0],
             ls_Q = [[Fin (1 / 2), Fin (1 / 2), Fin (1 / 2), Fin (1 / 2)],
                     [Fin (1 / 2), Fin (1 / 2), Fin (- (1 / 2)), Fin (- (1 / 2))]],
             ls_v = [Fin 1, Fin 1, Fin (- 1), Fin (- 1)]\<rparr> = (0, 1, 0)"
    by simp
  from lanczos_alpha_order [OF e t j p] have
    "Fin 4 =
       dot xr [Fin (1 / 2), Fin (1 / 2), Fin (- (1 / 2)), Fin (- (1 / 2))]
         (vsub_scaled xr
            (matvec A4 [Fin (1 / 2), Fin (1 / 2), Fin (- (1 / 2)), Fin (- (1 / 2))])
            (Fin 2) [Fin (1 / 2), Fin (1 / 2), Fin (1 / 2), Fin (1 / 2)])"
    by simp
  with e t j show ?thesis by blast
qed

section \<open>The column indices of the rolling window\<close>

text \<open>
  Claim C7.  The triple \<^verbatim>\<open>pos\<close> starts as \<open>(ncv - 1, 0, 1)\<close>; a pass through the body
  that runs to its end at step \<open>j\<close> rotates it to the left and sets its last entry to
  \<open>(j + 2) mod ncv\<close>; so at the start of every step \<open>j \<ge> 1\<close> it is
  \<open>((j - 1) mod ncv, j mod ncv, (j + 1) mod ncv)\<close>, and its three entries lie in
  \<open>[0, ncv)\<close>.  The number of columns is at least 2, the precondition of
  \<^verbatim>\<open>lanczos_recurrence\<close>.
\<close>

theorem lanczos_pos_rotation:
  assumes "2 \<le> ncv"
    and "lanczos_state_at ar ov A k tol orth ncv j (lanczos_init q alpha beta Q ncv) = Some t"
  shows "ls_pos (lanczos_init q alpha beta Q ncv) = (int ncv - 1, 0, 1)
     \<and> (\<forall>t'. lanczos_body ar ov A k tol orth ncv t = Inr (Continue t') \<longrightarrow>
           ls_pos t' = (fst (snd (ls_pos t)), snd (snd (ls_pos t)), (int j + 2) mod int ncv))
     \<and> (1 \<le> j \<longrightarrow>
           ls_pos t = ((int j - 1) mod int ncv, int j mod int ncv, (int j + 1) mod int ncv))
     \<and> pos_in_range ncv (ls_pos t)"
proof -
  have ju: "ls_j t = int j"
    using lanczos_state_at_frame [OF assms(2)] by (simp add: lanczos_init_def)
  have rot: "ls_pos t' = (fst (snd (ls_pos t)), snd (snd (ls_pos t)), (int j + 2) mod int ncv)"
    if "lanczos_body ar ov A k tol orth ncv t = Inr (Continue t')" for t'
    using lanczos_body_Continue(1) [OF that] by (simp add: ju mod_int_def)
  note p = pos_at_step [OF assms]
  have "pos_in_range ncv (ls_pos t)"
    using assms(1) by (simp add: p pos_in_range_def)
  with rot p show ?thesis
    by (simp add: lanczos_init_def)
qed

theorem lanczos_pos_rotation_witness:
  "(2::nat) \<le> 2
   \<and> lanczos_state_at xr ov_id A4 3 (Fin 1) 0 2 1
       (lanczos_init probe_a (zeros 3) (zeros 3) [normalized xr probe_a, zeros 4] 2) =
     Some \<lparr>ls_j = 1, ls_pos = (0, 1, 0), ls_alpha = [Fin 4, Fin 0, Fin 0],
            ls_beta = [Fin 0, Fin 2, Fin 0],
            ls_Q = [[Fin (1 / 2), Fin (1 / 2), Fin (1 / 2), Fin (1 / 2)],
                    [Fin (1 / 2), Fin (1 / 2), Fin (- (1 / 2)), Fin (- (1 / 2))]],
            ls_v = [Fin 1, Fin 1, Fin (- 1), Fin (- 1)]\<rparr>
   \<and> ((int 1 - 1) mod int 2, int 1 mod int 2, (int 1 + 1) mod int 2) = (0, 1, 0)
   \<and> pos_in_range 2 (0, 1, 0)"
proof -
  have e: "lanczos_state_at xr ov_id A4 3 (Fin 1) 0 2 1
       (lanczos_init probe_a (zeros 3) (zeros 3) [normalized xr probe_a, zeros 4] 2) =
     Some \<lparr>ls_j = 1, ls_pos = (0, 1, 0), ls_alpha = [Fin 4, Fin 0, Fin 0],
            ls_beta = [Fin 0, Fin 2, Fin 0],
            ls_Q = [[Fin (1 / 2), Fin (1 / 2), Fin (1 / 2), Fin (1 / 2)],
                    [Fin (1 / 2), Fin (1 / 2), Fin (- (1 / 2)), Fin (- (1 / 2))]],
            ls_v = [Fin 1, Fin 1, Fin (- 1), Fin (- 1)]\<rparr>"
    by (simp add: run_defs)
  have n: "(2::nat) \<le> 2" by simp
  from lanczos_pos_rotation [OF n e] e show ?thesis
    by simp
qed

section \<open>No exceptional control flow\<close>

text \<open>
  Claim C9, as amended.  Called with buffers of the sizes it needs (a square operator of
  order \<open>n\<close>, \<open>q\<close> of length \<open>n\<close>, \<open>ncv \<ge> 2\<close> columns of length \<open>n\<close>, \<open>k\<close> entries
  of \<^verbatim>\<open>alpha\<close> and \<open>k + 1\<close> of \<^verbatim>\<open>beta\<close>), \<^verbatim>\<open>lanczos_recurrence\<close> returns for every
  arithmetic, operator and orthogonaliser, having stopped at a step \<open>j* < k\<close>.  For every
  step \<open>j \<le> j*\<close> it ran, the returned \<open>alpha[j]\<close> and \<open>beta[j+1]\<close> are the values the
  step computed from \<open>A q\<^sub>c\<close>, whatever they are: no test stands between the operator
  and the two arrays.  In particular a component of \<open>A q\<^sub>c\<close> that belongs to an absorbing
  set of values, as NaN and the infinities are, puts \<open>alpha[j]\<close> in that set, and
  \<open>beta[j+1]\<close> too when \<open>orth \<le> 0\<close>.  For the zero probe the recurrence stops at step 0
  with \<open>alpha[0] = 0\<close> and \<open>beta[1] = 0\<close> and every other entry as the caller passed it,
  when the threshold \<open>sqrt(n) * rtol\<close> is positive, the operator maps the zero vector
  to itself, \<open>beta[0]\<close> times any entry of the previous column is zero, and the
  orthogonaliser leaves the zero vector as it is.
\<close>

theorem lanczos_no_exception:
  assumes "shape A = (n, n)" "length q = n" "length V = ncv" "list_all (\<lambda>c. length c = n) V"
    "2 \<le> ncv" "1 \<le> k" "nat k \<le> length alpha" "nat k + 1 \<le> length beta"
  shows "\<exists>sf. lanczos_recurrence ar ov A q k rtol orth alpha beta V ncv = Inr sf
     \<and> 0 \<le> ls_j sf \<and> ls_j sf < k
     \<and> (\<forall>j t. lanczos_state_at ar ov A k (residual_tol ar A rtol) orth ncv j
                 (lanczos_entry ar q alpha beta V ncv) = Some t \<longrightarrow>
           j \<le> nat (ls_j sf)
           \<and> ls_alpha sf ! j = lanczos_coeff ar A t
           \<and> ls_beta sf ! (j + 1) = norm_v ar (lanczos_residual ar ov A orth t)
           \<and> (\<forall>bad i.
                (\<forall>x y. bad x \<longrightarrow> bad (f_add ar x y) \<and> bad (f_add ar y x) \<and> bad (f_sub ar x y)
                        \<and> bad (f_mul ar y x) \<and> bad (f_sqrt ar x))
                \<and> i < length (ls_Q t ! nat (fst (snd (ls_pos t))))
                \<and> i < length (ls_Q t ! nat (fst (ls_pos t)))
                \<and> i < length (matvec A (ls_Q t ! nat (fst (snd (ls_pos t)))))
                \<and> bad (matvec A (ls_Q t ! nat (fst (snd (ls_pos t)))) ! i)
                \<longrightarrow> bad (ls_alpha sf ! j) \<and> (orth \<le> 0 \<longrightarrow> bad (ls_beta sf ! (j + 1)))))
     \<and> (q = replicate n (f_zero ar)
        \<and> f_add ar (f_zero ar) (f_zero ar) = f_zero ar
        \<and> f_mul ar (f_zero ar) (f_zero ar) = f_zero ar
        \<and> f_sub ar (f_zero ar) (f_zero ar) = f_zero ar
        \<and> f_sqrt ar (f_zero ar) = f_zero ar
        \<and> \<not> f_less ar (f_zero ar) (f_zero ar)
        \<and> f_less ar (f_zero ar) (residual_tol ar A rtol)
        \<and> matvec A (replicate n (f_zero ar)) = replicate n (f_zero ar)
        \<and> (\<forall>x\<in>set (V ! (ncv - 1)). f_mul ar (beta ! 0) x = f_zero ar)
        \<and> (0 < orth \<longrightarrow>
             ov (replicate n (f_zero ar)) (V[0 := replicate n (f_zero ar)]) 0 orth True =
             replicate n (f_zero ar))
        \<longrightarrow> sf = \<lparr>ls_j = 0, ls_pos = (int ncv - 1, 0, 1), ls_alpha = alpha[0 := f_zero ar],
                   ls_beta = beta[1 := f_zero ar], ls_Q = V[0 := replicate n (f_zero ar)],
                   ls_v = replicate n (f_zero ar)\<rparr>)"
proof -
  have la: "1 \<le> length alpha" and lb: "2 \<le> length beta"
    using assms(6-8) by auto
  from lanczos_recurrence_total [OF assms(1-5,7,8)]
  obtain sf where r: "lanczos_recurrence ar ov A q k rtol orth alpha beta V ncv = Inr sf"
    by blast
  from lanczos_recurrence_stop [OF r assms(6)] have j: "0 \<le> ls_j sf \<and> ls_j sf < k"
    by blast
  have v: "j \<le> nat (ls_j sf)
           \<and> ls_alpha sf ! j = lanczos_coeff ar A t
           \<and> ls_beta sf ! (j + 1) = norm_v ar (lanczos_residual ar ov A orth t)
           \<and> (\<forall>bad i.
                (\<forall>x y. bad x \<longrightarrow> bad (f_add ar x y) \<and> bad (f_add ar y x) \<and> bad (f_sub ar x y)
                        \<and> bad (f_mul ar y x) \<and> bad (f_sqrt ar x))
                \<and> i < length (ls_Q t ! nat (fst (snd (ls_pos t))))
                \<and> i < length (ls_Q t ! nat (fst (ls_pos t)))
                \<and> i < length (matvec A (ls_Q t ! nat (fst (snd (ls_pos t)))))
                \<and> bad (matvec A (ls_Q t ! nat (fst (snd (ls_pos t)))) ! i)
                \<longrightarrow> bad (ls_alpha sf ! j) \<and> (orth \<le> 0 \<longrightarrow> bad (ls_beta sf ! (j + 1))))"
    if t: "lanczos_state_at ar ov A k (residual_tol ar A rtol) orth ncv j
                 (lanczos_entry ar q alpha beta V ncv) = Some t" for j t
  proof -
    note val = lanczos_recurrence_values [OF r assms(6) t]
    have "bad (ls_alpha sf ! j) \<and> (orth \<le> 0 \<longrightarrow> bad (ls_beta sf ! (j + 1)))"
      if "(\<forall>x y. bad x \<longrightarrow> bad (f_add ar x y) \<and> bad (f_add ar y x) \<and> bad (f_sub ar x y)
                        \<and> bad (f_mul ar y x) \<and> bad (f_sqrt ar x))
                \<and> i < length (ls_Q t ! nat (fst (snd (ls_pos t))))
                \<and> i < length (ls_Q t ! nat (fst (ls_pos t)))
                \<and> i < length (matvec A (ls_Q t ! nat (fst (snd (ls_pos t)))))
                \<and> bad (matvec A (ls_Q t ! nat (fst (snd (ls_pos t)))) ! i)" for bad i
    proof -
      from that have ab: "\<forall>x y. bad x \<longrightarrow> bad (f_add ar x y) \<and> bad (f_add ar y x)
            \<and> bad (f_sub ar x y) \<and> bad (f_mul ar y x) \<and> bad (f_sqrt ar x)"
        and i: "i < length (ls_Q t ! nat (fst (snd (ls_pos t))))"
          "i < length (ls_Q t ! nat (fst (ls_pos t)))"
          "i < length (matvec A (ls_Q t ! nat (fst (snd (ls_pos t)))))"
        and b: "bad (matvec A (ls_Q t ! nat (fst (snd (ls_pos t)))) ! i)"
        by blast+
      from lanczos_step_absorbed(1) [where bad = bad, OF ab i b]
        lanczos_step_absorbed(2) [where bad = bad and ov = ov and orth = orth, OF ab i b]
      show ?thesis
        unfolding val(2,3) by blast
    qed
    with val show ?thesis by blast
  qed
  have z: "sf = \<lparr>ls_j = 0, ls_pos = (int ncv - 1, 0, 1), ls_alpha = alpha[0 := f_zero ar],
                   ls_beta = beta[1 := f_zero ar], ls_Q = V[0 := replicate n (f_zero ar)],
                   ls_v = replicate n (f_zero ar)\<rparr>"
    if "q = replicate n (f_zero ar)
        \<and> f_add ar (f_zero ar) (f_zero ar) = f_zero ar
        \<and> f_mul ar (f_zero ar) (f_zero ar) = f_zero ar
        \<and> f_sub ar (f_zero ar) (f_zero ar) = f_zero ar
        \<and> f_sqrt ar (f_zero ar) = f_zero ar
        \<and> \<not> f_less ar (f_zero ar) (f_zero ar)
        \<and> f_less ar (f_zero ar) (residual_tol ar A rtol)
        \<and> matvec A (replicate n (f_zero ar)) = replicate n (f_zero ar)
        \<and> (\<forall>x\<in>set (V ! (ncv - 1)). f_mul ar (beta ! 0) x = f_zero ar)
        \<and> (0 < orth \<longrightarrow>
             ov (replicate n (f_zero ar)) (V[0 := replicate n (f_zero ar)]) 0 orth True =
             replicate n (f_zero ar))"
  proof -
    from that have h: "q = replicate n (f_zero ar)"
      "f_add ar (f_zero ar) (f_zero ar) = f_zero ar"
      "f_mul ar (f_zero ar) (f_zero ar) = f_zero ar"
      "f_sub ar (f_zero ar) (f_zero ar) = f_zero ar"
      "f_sqrt ar (f_zero ar) = f_zero ar"
      "\<not> f_less ar (f_zero ar) (f_zero ar)"
      "f_less ar (f_zero ar) (residual_tol ar A rtol)"
      "matvec A (replicate n (f_zero ar)) = replicate n (f_zero ar)"
      "\<forall>x\<in>set (V ! (ncv - 1)). f_mul ar (beta ! 0) x = f_zero ar"
      "0 < orth \<longrightarrow>
             ov (replicate n (f_zero ar)) (V[0 := replicate n (f_zero ar)]) 0 orth True =
             replicate n (f_zero ar)"
      by blast+
    from lanczos_zero_probe [where ov = ov and orth = orth and k = k and rtol = rtol
          and alpha = alpha, OF assms(1,3,4,5,6) la lb h(2-10)] r
    show ?thesis
      unfolding h(1) by simp
  qed
  from r j v z show ?thesis by blast
qed

theorem lanczos_no_exception_witness:
  "shape A4 = (4, 4) \<and> length (zeros 4) = 4 \<and> length [zeros 4, zeros 4] = 2
   \<and> list_all (\<lambda>c. length c = 4) [zeros 4, zeros 4] \<and> (2::nat) \<le> 2 \<and> (1::int) \<le> 3
   \<and> nat 3 \<le> length (zeros 3) \<and> nat 3 + 1 \<le> length (zeros 4)
   \<and> zeros 4 = replicate 4 (f_zero xr)
   \<and> f_less xr (f_zero xr) (residual_tol xr A4 (Fin (1 / 2)))
   \<and> (0::int) < 1
   \<and> ov_id (replicate 4 (f_zero xr)) ([zeros 4, zeros 4][0 := replicate 4 (f_zero xr)]) 0 1 True =
       replicate 4 (f_zero xr)
   \<and> lanczos_recurrence xr ov_id A4 (zeros 4) 3 (Fin (1 / 2)) 1 (zeros 3) (zeros 4)
        [zeros 4, zeros 4] 2 =
      Inr \<lparr>ls_j = 0, ls_pos = (1, 0, 1), ls_alpha = zeros 3, ls_beta = zeros 4,
            ls_Q = [zeros 4, zeros 4], ls_v = zeros 4\<rparr>
   \<and> shape A_inf = (1, 1) \<and> length [Fin 1] = 1 \<and> length [zeros 1, zeros 1] = 2
   \<and> list_all (\<lambda>c. length c = 1) [zeros 1, zeros 1] \<and> (1::int) \<le> 2
   \<and> nat 2 \<le> length (zeros 2) \<and> nat 2 + 1 \<le> length (zeros 3)
   \<and> matvec A_inf
        (ls_Q (lanczos_entry xr [Fin 1] (zeros 2) (zeros 3) [zeros 1, zeros 1] 2) ! nat 0) ! 0 = PInf
   \<and> x_nonfinite PInf
   \<and> lanczos_recurrence xr ov_id A_inf [Fin 1] 2 (Fin (1 / 2)) 0 (zeros 2) (zeros 3)
        [zeros 1, zeros 1] 2 =
      Inr \<lparr>ls_j = 1, ls_pos = (0, 1, 0), ls_alpha = [PInf, NaN], ls_beta = [Fin 0, NaN, NaN],
            ls_Q = [[Fin 1], [NaN]], ls_v = [NaN]\<rparr>
   \<and> x_nonfinite ([PInf, NaN] ! 0) \<and> x_nonfinite ([Fin 0, NaN, NaN] ! 1)"
proof -
  have h: "shape A4 = (4, 4)" "length (zeros 4) = 4" "length [zeros 4, zeros 4] = 2"
    "list_all (\<lambda>c. length c = 4) [zeros 4, zeros 4]" "(2::nat) \<le> 2" "(1::int) \<le> 3"
    "nat 3 \<le> length (zeros 3)" "nat 3 + 1 \<le> length (zeros 4)"
    by (simp_all add: A4_def dense_operator_def zeros_def)
  have z: "zeros 4 = replicate 4 (f_zero xr)"
    "f_less xr (f_zero xr) (residual_tol xr A4 (Fin (1 / 2)))"
    "(0::int) < 1"
    "ov_id (replicate 4 (f_zero xr)) ([zeros 4, zeros 4][0 := replicate 4 (f_zero xr)]) 0 1 True =
       replicate 4 (f_zero xr)"
    by (simp_all add: residual_tol_def run_defs)
  have g: "f_add xr (f_zero xr) (f_zero xr) = f_zero xr
        \<and> f_mul xr (f_zero xr) (f_zero xr) = f_zero xr
        \<and> f_sub xr (f_zero xr) (f_zero xr) = f_zero xr
        \<and> f_sqrt xr (f_zero xr) = f_zero xr
        \<and> \<not> f_less xr (f_zero xr) (f_zero xr)
        \<and> matvec A4 (replicate 4 (f_zero xr)) = replicate 4 (f_zero xr)
        \<and> (\<forall>x\<in>set ([zeros 4, zeros 4] ! (2 - 1)). f_mul xr (zeros 4 ! 0) x = f_zero xr)"
    by (simp add: run_defs)
  from lanczos_no_exception [OF h, where ar = xr and ov = ov_id and rtol = "Fin (1 / 2)"
      and orth = 1] z g
  have "lanczos_recurrence xr ov_id A4 (zeros 4) 3 (Fin (1 / 2)) 1 (zeros 3) (zeros 4)
        [zeros 4, zeros 4] 2 =
      Inr \<lparr>ls_j = 0, ls_pos = (int 2 - 1, 0, 1), ls_alpha = (zeros 3)[0 := f_zero xr],
            ls_beta = (zeros 4)[1 := f_zero xr],
            ls_Q = [zeros 4, zeros 4][0 := replicate 4 (f_zero xr)],
            ls_v = replicate 4 (f_zero xr)\<rparr>"
    by blast
  then have e1: "lanczos_recurrence xr ov_id A4 (zeros 4) 3 (Fin (1 / 2)) 1 (zeros 3) (zeros 4)
        [zeros 4, zeros 4] 2 =
      Inr \<lparr>ls_j = 0, ls_pos = (1, 0, 1), ls_alpha = zeros 3, ls_beta = zeros 4,
            ls_Q = [zeros 4, zeros 4], ls_v = zeros 4\<rparr>"
    by (simp add: zeros_def xr_def eval_nat_numeral)
  have h2: "shape A_inf = (1, 1)" "length [Fin 1] = 1" "length [zeros 1, zeros 1] = 2"
    "list_all (\<lambda>c. length c = 1) [zeros 1, zeros 1]" "(2::nat) \<le> 2" "(1::int) \<le> 2"
    "nat 2 \<le> length (zeros 2)" "nat 2 + 1 \<le> length (zeros 3)"
    by (simp_all add: A_inf_def dense_operator_def zeros_def)
  let ?t = "lanczos_entry xr [Fin 1] (zeros 2) (zeros 3) [zeros 1, zeros 1] 2"
  have m: "matvec A_inf (ls_Q ?t ! nat 0) ! 0 = PInf" "x_nonfinite PInf"
    by (simp_all add: lanczos_entry_def A_inf_def run_defs)
  have i: "0 < length (ls_Q ?t ! nat (fst (snd (ls_pos ?t))))"
    "0 < length (ls_Q ?t ! nat (fst (ls_pos ?t)))"
    "0 < length (matvec A_inf (ls_Q ?t ! nat (fst (snd (ls_pos ?t)))))"
    "x_nonfinite (matvec A_inf (ls_Q ?t ! nat (fst (snd (ls_pos ?t)))) ! 0)"
    by (simp_all add: lanczos_entry_def A_inf_def run_defs)
  have e2: "lanczos_recurrence xr ov_id A_inf [Fin 1] 2 (Fin (1 / 2)) 0 (zeros 2) (zeros 3)
        [zeros 1, zeros 1] 2 =
      Inr \<lparr>ls_j = 1, ls_pos = (0, 1, 0), ls_alpha = [PInf, NaN], ls_beta = [Fin 0, NaN, NaN],
            ls_Q = [[Fin 1], [NaN]], ls_v = [NaN]\<rparr>"
    by (simp add: lanczos_recurrence_def lanczos_loop.simps run_defs A_inf_def)
  have t0: "lanczos_state_at xr ov_id A_inf 2 (residual_tol xr A_inf (Fin (1 / 2))) 0 2 0 ?t
      = Some ?t"
    by simp
  from lanczos_no_exception [OF h2, where ar = xr and ov = ov_id and rtol = "Fin (1 / 2)"
      and orth = 0]
  obtain sf where a: "lanczos_recurrence xr ov_id A_inf [Fin 1] 2 (Fin (1 / 2)) 0 (zeros 2)
        (zeros 3) [zeros 1, zeros 1] 2 = Inr sf"
    and b: "\<forall>j t. lanczos_state_at xr ov_id A_inf 2 (residual_tol xr A_inf (Fin (1 / 2))) 0 2 j ?t
                 = Some t \<longrightarrow>
           j \<le> nat (ls_j sf)
           \<and> ls_alpha sf ! j = lanczos_coeff xr A_inf t
           \<and> ls_beta sf ! (j + 1) = norm_v xr (lanczos_residual xr ov_id A_inf 0 t)
           \<and> (\<forall>bad i.
                (\<forall>x y. bad x \<longrightarrow> bad (f_add xr x y) \<and> bad (f_add xr y x) \<and> bad (f_sub xr x y)
                        \<and> bad (f_mul xr y x) \<and> bad (f_sqrt xr x))
                \<and> i < length (ls_Q t ! nat (fst (snd (ls_pos t))))
                \<and> i < length (ls_Q t ! nat (fst (ls_pos t)))
                \<and> i < length (matvec A_inf (ls_Q t ! nat (fst (snd (ls_pos t)))))
                \<and> bad (matvec A_inf (ls_Q t ! nat (fst (snd (ls_pos t)))) ! i)
                \<longrightarrow> bad (ls_alpha sf ! j) \<and> ((0::int) \<le> 0 \<longrightarrow> bad (ls_beta sf ! (j + 1))))"
    by blast
  from b [rule_format, OF t0] have "\<forall>bad i.
                (\<forall>x y. bad x \<longrightarrow> bad (f_add xr x y) \<and> bad (f_add xr y x) \<and> bad (f_sub xr x y)
                        \<and> bad (f_mul xr y x) \<and> bad (f_sqrt xr x))
                \<and> i < length (ls_Q ?t ! nat (fst (snd (ls_pos ?t))))
                \<and> i < length (ls_Q ?t ! nat (fst (ls_pos ?t)))
                \<and> i < length (matvec A_inf (ls_Q ?t ! nat (fst (snd (ls_pos ?t)))))
                \<and> bad (matvec A_inf (ls_Q ?t ! nat (fst (snd (ls_pos ?t)))) ! i)
                \<longrightarrow> bad (ls_alpha sf ! 0) \<and> ((0::int) \<le> 0 \<longrightarrow> bad (ls_beta sf ! (0 + 1)))"
    by blast
  from this [rule_format, of x_nonfinite 0] xr_nonfinite_absorbing i
  have "x_nonfinite (ls_alpha sf ! 0) \<and> x_nonfinite (ls_beta sf ! (0 + 1))"
    by blast
  with a e2 have n: "x_nonfinite ([PInf, NaN] ! 0) \<and> x_nonfinite ([Fin 0, NaN, NaN] ! 1)"
    by auto
  from h z e1 h2 m e2 n show ?thesis by blast
qed

text \<open>
  Claim C9 as the spec states it fails for \<open>rtol = 0\<close>, a value the spec allows: the
  threshold is 0, the test \<open>0 < 0\<close> of the zero residual fails, the next column is
  \<open>0 / 0\<close>, and the second step writes NaN to \<open>alpha[1]\<close> and \<open>beta[2]\<close>.
\<close>

theorem lanczos_zero_probe_nan:
  "lanczos_recurrence xr ov_id A1 [Fin 0] 2 (Fin 0) 0 (zeros 3) (zeros 3)
        [zeros 1, zeros 1] 2 =
      Inr \<lparr>ls_j = 1, ls_pos = (0, 1, 0), ls_alpha = [Fin 0, NaN, Fin 0],
            ls_beta = [Fin 0, Fin 0, NaN], ls_Q = [[Fin 0], [NaN]], ls_v = [NaN]\<rparr>
   \<and> [Fin 0, NaN, Fin 0] \<noteq> zeros 3 \<and> [Fin 0, Fin 0, NaN] \<noteq> zeros 3"
  by (simp add: lanczos_recurrence_def lanczos_loop.simps run_defs)

section \<open>The flag passed to the orthogonaliser\<close>

text \<open>
  Claim C10.  \<^verbatim>\<open>lanczos_recurrence\<close> calls the orthogonaliser with its flag set and
  in no other way: whenever \<open>orth > 0\<close>, the vector a step leaves is what
  \<^verbatim>\<open>orth_vector\<close> returns with the flag \<^verbatim>\<open>true\<close> for the vector after the two
  subtractions, and what an orthogonaliser does with the flag \<^verbatim>\<open>false\<close> has no effect
  on the result of the recurrence.
\<close>

theorem lanczos_orth_flag:
  assumes "\<forall>v Q c d. ov1 v Q c d True = ov2 v Q c d True"
  shows "lanczos_recurrence ar ov1 A q k rtol orth alpha beta V ncv =
         lanczos_recurrence ar ov2 A q k rtol orth alpha beta V ncv
     \<and> (\<forall>tol s r. 0 < orth \<longrightarrow> lanczos_body ar ov1 A k tol orth ncv s = Inr r \<longrightarrow>
           ls_v (outcome_state r) =
             ov1 (vsub_scaled ar (lanczos_partial ar A s) (lanczos_coeff ar A s)
                    (ls_Q s ! nat (fst (snd (ls_pos s)))))
               (ls_Q s) (fst (snd (ls_pos s))) orth True)"
proof -
  have "lanczos_recurrence ar ov1 A q k rtol orth alpha beta V ncv =
         lanczos_recurrence ar ov2 A q k rtol orth alpha beta V ncv"
    unfolding lanczos_recurrence_def Let_def
    by (simp add: lanczos_loop_flag [where ?ov1.0 = ov1 and ?ov2.0 = ov2, OF assms] cong: if_cong)
  moreover have "ls_v (outcome_state r) =
             ov1 (vsub_scaled ar (lanczos_partial ar A s) (lanczos_coeff ar A s)
                    (ls_Q s ! nat (fst (snd (ls_pos s)))))
               (ls_Q s) (fst (snd (ls_pos s))) orth True"
    if "0 < orth" "lanczos_body ar ov1 A k tol orth ncv s = Inr r" for tol s r
    using lanczos_body_state(4) [OF that(2)] that(1)
    by (simp add: lanczos_residual_def Let_def split: prod.splits)
  ultimately show ?thesis by blast
qed

theorem lanczos_orth_flag_witness:
  "(\<forall>v Q c d. ov_id v Q c d True = ov_flagged (v :: xfloat list) Q c d True)
   \<and> lanczos_recurrence xr ov_id A4 probe_a 3 (Fin (1 / 2)) 1 (zeros 3) (zeros 3)
        [zeros 4, zeros 4] 2 =
      lanczos_recurrence xr ov_flagged A4 probe_a 3
        (Fin (1 / 2)) 1 (zeros 3) (zeros 3) [zeros 4, zeros 4] 2
   \<and> lanczos_recurrence xr ov_id A4 probe_a 3 (Fin (1 / 2)) 1 (zeros 3) (zeros 3)
        [zeros 4, zeros 4] 2 =
      Inr \<lparr>ls_j = 1, ls_pos = (0, 1, 0), ls_alpha = [Fin 4, Fin 4, Fin 0],
            ls_beta = [Fin 0, Fin 2, Fin 0],
            ls_Q = [[Fin (1 / 2), Fin (1 / 2), Fin (1 / 2), Fin (1 / 2)],
                    [Fin (1 / 2), Fin (1 / 2), Fin (- (1 / 2)), Fin (- (1 / 2))]],
            ls_v = [Fin 0, Fin 0, Fin 0, Fin 0]\<rparr>"
proof -
  have h: "\<forall>v Q c d. ov_id v Q c d True = ov_flagged (v :: xfloat list) Q c d True"
    by (simp add: ov_id_def ov_flagged_def)
  have e: "lanczos_recurrence xr ov_id A4 probe_a 3 (Fin (1 / 2)) 1 (zeros 3) (zeros 3)
        [zeros 4, zeros 4] 2 =
      Inr \<lparr>ls_j = 1, ls_pos = (0, 1, 0), ls_alpha = [Fin 4, Fin 4, Fin 0],
            ls_beta = [Fin 0, Fin 2, Fin 0],
            ls_Q = [[Fin (1 / 2), Fin (1 / 2), Fin (1 / 2), Fin (1 / 2)],
                    [Fin (1 / 2), Fin (1 / 2), Fin (- (1 / 2)), Fin (- (1 / 2))]],
            ls_v = [Fin 0, Fin 0, Fin 0, Fin 0]\<rparr>"
    by (simp add: lanczos_recurrence_def lanczos_loop.simps run_defs)
  from lanczos_orth_flag [where ?ov1.0 = ov_id and ?ov2.0 = ov_flagged, OF h,
      of xr A4 probe_a 3 "Fin (1 / 2)" 1 "zeros 3" "zeros 3" "[zeros 4, zeros 4]" 2] h e
  show ?thesis by blast
qed

end
